theory Spec2Isabelle
  imports Complex_Main "HOL-Library.AList"
begin

section \<open>Numbers\<close>

text \<open>
  The amounts of \<^verbatim>\<open>app.py\<close> (quantities, prices, fees, taxes, timestamps) are Python
  floats. The amounts that the ledger reduction and the summary compute with are
  embedded as exact rationals: \<open>+\<close>, \<open>-\<close>, \<open>*\<close> and \<open>/\<close> are the field operations, so the
  rounding error of binary floating point is not part of the model, and \<^verbatim>\<open>int()\<close> or
  \<^verbatim>\<open>round()\<close> of an amount is that of the exact amount, which can differ by one unit
  from that of the double next to it.
\<close>

text \<open>\<^verbatim>\<open>int(x)\<close> drops the fractional part (truncation towards zero).\<close>

definition py_int :: "rat \<Rightarrow> int" where
  "py_int x = (if 0 \<le> x then \<lfloor>x\<rfloor> else \<lceil>x\<rceil>)"

text \<open>\<^verbatim>\<open>round(x, 2)\<close>: the nearest multiple of 1/100, a tie going to the even one.\<close>

definition round_half_even :: "rat \<Rightarrow> int" where
  "round_half_even y =
     (let f = \<lfloor>y\<rfloor>; d = y - of_int f
      in if d < 1 / 2 then f
         else if 1 / 2 < d then f + 1
         else if even f then f else f + 1)"

definition py_round2 :: "rat \<Rightarrow> rat" where
  "py_round2 x = of_int (round_half_even (x * 100)) / 100"

text \<open>\<^verbatim>\<open>x % y\<close> on numbers: the remainder has the sign of the divisor.\<close>

definition py_mod :: "rat \<Rightarrow> rat \<Rightarrow> rat" where
  "py_mod x y = x - of_int \<lfloor>x / y\<rfloor> * y"

section \<open>Floats at the boundary\<close>

text \<open>
  Where a value comes from outside (a text converted by \<^verbatim>\<open>float()\<close>, a price of the
  spreadsheet, a close of the quote provider) it is a Python float in full: a number,
  an infinity, or \<^verbatim>\<open>nan\<close>.
\<close>

datatype pyfloat = Number rat | Pos_Inf | Neg_Inf | NaN

text \<open>\<^verbatim>\<open>x <= y\<close> and \<^verbatim>\<open>x < y\<close>: every comparison with \<^verbatim>\<open>nan\<close> is false.\<close>

fun py_le :: "pyfloat \<Rightarrow> pyfloat \<Rightarrow> bool" where
  "py_le (Number a) (Number b) = (a \<le> b)"
| "py_le NaN y = False"
| "py_le x NaN = False"
| "py_le Neg_Inf y = True"
| "py_le x Pos_Inf = True"
| "py_le x y = False"

fun py_lt :: "pyfloat \<Rightarrow> pyfloat \<Rightarrow> bool" where
  "py_lt (Number a) (Number b) = (a < b)"
| "py_lt NaN y = False"
| "py_lt x NaN = False"
| "py_lt Neg_Inf Neg_Inf = False"
| "py_lt Neg_Inf y = True"
| "py_lt Pos_Inf y = False"
| "py_lt x Pos_Inf = True"
| "py_lt x y = False"

text \<open>\<^verbatim>\<open>max(a, b)\<close> keeps \<open>a\<close> unless \<open>b\<close> is greater.\<close>

definition py_max :: "pyfloat \<Rightarrow> pyfloat \<Rightarrow> pyfloat" where
  "py_max a b = (if py_lt a b then b else a)"

text \<open>
  \<^verbatim>\<open>x * y\<close>: \<^verbatim>\<open>nan\<close> is absorbing, an infinity times zero is \<^verbatim>\<open>nan\<close>, and the sign of
  any other product with an infinity is the product of the signs.
\<close>

fun py_sign :: "pyfloat \<Rightarrow> int" where
  "py_sign (Number a) = (if 0 < a then 1 else if a < 0 then - 1 else 0)"
| "py_sign Pos_Inf = 1"
| "py_sign Neg_Inf = - 1"
| "py_sign NaN = 0"

fun py_mul :: "pyfloat \<Rightarrow> pyfloat \<Rightarrow> pyfloat" where
  "py_mul (Number a) (Number b) = Number (a * b)"
| "py_mul NaN y = NaN"
| "py_mul x NaN = NaN"
| "py_mul x y =
     (if 0 < py_sign x * py_sign y then Pos_Inf
      else if py_sign x * py_sign y < 0 then Neg_Inf
      else NaN)"

text \<open>\<^verbatim>\<open>x % m\<close> for a number \<open>m\<close>: the remainder of an infinity or of \<^verbatim>\<open>nan\<close> is \<^verbatim>\<open>nan\<close>.\<close>

fun float_mod :: "pyfloat \<Rightarrow> rat \<Rightarrow> pyfloat" where
  "float_mod (Number a) m = Number (py_mod a m)"
| "float_mod x m = NaN"

text \<open>\<^verbatim>\<open>round(x, 2)\<close> of a float: infinities and \<^verbatim>\<open>nan\<close> round to themselves.\<close>

fun py_round :: "pyfloat \<Rightarrow> pyfloat" where
  "py_round (Number a) = Number (py_round2 a)"
| "py_round x = x"

section \<open>Strings\<close>

text \<open>\<^verbatim>\<open>s.endswith(suf)\<close> and \<^verbatim>\<open>s.split('.')[0]\<close>.\<close>

definition endswith :: "string \<Rightarrow> string \<Rightarrow> bool" where
  "endswith s suf = (length suf \<le> length s \<and> drop (length s - length suf) s = suf)"

definition split_dot_first :: "string \<Rightarrow> string" where
  "split_dot_first s = takeWhile (\<lambda>c. c \<noteq> CHR ''.'') s"

section \<open>Transactions and the per-security running state\<close>

text \<open>
  A row of the transaction list is the dictionary built by
  \<^verbatim>\<open>get_transactions_from_google_sheet\<close> and by the entry form of \<^verbatim>\<open>index\<close>. The type
  \<open>'n\<close> is that of its four amounts: \<open>rat\<close> for the rows that the reduction reads,
  \<open>pyfloat\<close> for the row that the entry form builds from the posted texts.
\<close>

record 'n transaction =
  Date :: string
  Stock_Code :: string
  Stock_Name :: string
  Type :: string
  Quantity :: 'n
  Price :: 'n
  Fee :: 'n
  Tax :: 'n

text \<open>The value stored under a code in \<^verbatim>\<open>stock_status\<close> by \<^verbatim>\<open>get_portfolio_summary\<close>.\<close>

record stock_state =
  name :: string
  quantity :: rat
  total_buy_cost :: rat
  total_sell_revenue :: rat
  total_fee_tax :: rat
  buy_quantity :: rat
  sell_quantity :: rat
  realized_profit :: rat
  is_otc :: bool

text \<open>
  \<^verbatim>\<open>stock_status\<close> is a Python dictionary; iteration follows insertion order, which
  decides the order of the report lines. It is an association list with distinct keys:
  a new key goes to the end, an update keeps the key's place.
\<close>

type_synonym stock_status = "(string \<times> stock_state) list"

definition new_state :: "rat transaction \<Rightarrow> stock_state" where
  "new_state row =
     \<lparr>name = Stock_Name row, quantity = 0, total_buy_cost = 0, total_sell_revenue = 0,
      total_fee_tax = 0, buy_quantity = 0, sell_quantity = 0, realized_profit = 0,
      is_otc = endswith (Stock_Code row) ''.TWO''\<rparr>"

text \<open>The branch \<^verbatim>\<open>if row["Type"] == "Buy"\<close>.\<close>

definition buy_update :: "stock_state \<Rightarrow> rat transaction \<Rightarrow> stock_state" where
  "buy_update s row =
     s\<lparr>quantity := quantity s + Quantity row,
       total_buy_cost := total_buy_cost s + (Quantity row * Price row + Fee row + Tax row),
       buy_quantity := buy_quantity s + Quantity row,
       total_fee_tax := total_fee_tax s + (Fee row + Tax row)\<rparr>"

text \<open>
  The local variable \<^verbatim>\<open>realized_profit\<close> of the \<^verbatim>\<open>else\<close> branch, computed from the
  state's buy totals: the moving-average cost of the shares sold.
\<close>

definition avg_buy_price :: "stock_state \<Rightarrow> rat" where
  "avg_buy_price s = (if buy_quantity s > 0 then total_buy_cost s / buy_quantity s else 0)"

definition sell_profit :: "stock_state \<Rightarrow> rat transaction \<Rightarrow> rat" where
  "sell_profit s row = (Price row - avg_buy_price s) * Quantity row - Fee row - Tax row"

text \<open>The \<^verbatim>\<open>else\<close> branch, taken by every row whose type is not \<^verbatim>\<open>"Buy"\<close>.\<close>

definition sell_update :: "stock_state \<Rightarrow> rat transaction \<Rightarrow> stock_state" where
  "sell_update s row =
     (let s1 = s\<lparr>quantity := quantity s - Quantity row,
                 total_sell_revenue :=
                   total_sell_revenue s + (Quantity row * Price row - Fee row - Tax row),
                 sell_quantity := sell_quantity s + Quantity row,
                 total_fee_tax := total_fee_tax s + (Fee row + Tax row)\<rparr>
      in s1\<lparr>realized_profit := realized_profit s1 + sell_profit s1 row\<rparr>)"

definition row_update :: "rat transaction \<Rightarrow> stock_state \<Rightarrow> stock_state" where
  "row_update row s = (if Type row = ''Buy'' then buy_update s row else sell_update s row)"

text \<open>One iteration of \<^verbatim>\<open>for row in transactions\<close>.\<close>

definition process_row :: "stock_status \<Rightarrow> rat transaction \<Rightarrow> stock_status" where
  "process_row stock_status row =
     (let full_code = Stock_Code row;
          stock_status1 =
            (if map_of stock_status full_code = None
             then stock_status @ [(full_code, new_state row)]
             else stock_status)
      in AList.map_entry full_code (row_update row) stock_status1)"

fun stock_status_loop :: "stock_status \<Rightarrow> rat transaction list \<Rightarrow> stock_status" where
  "stock_status_loop stock_status [] = stock_status"
| "stock_status_loop stock_status (row # rows) =
     stock_status_loop (process_row stock_status row) rows"

text \<open>The reduction of a transaction list, from the empty dictionary.\<close>

definition reduce_transactions :: "rat transaction list \<Rightarrow> stock_status" where
  "reduce_transactions transactions = stock_status_loop [] transactions"

text \<open>The state a row meets: the stored one, or the fresh one of a code seen first.\<close>

definition state_before :: "stock_status \<Rightarrow> rat transaction \<Rightarrow> stock_state" where
  "state_before stock_status row =
     (case map_of stock_status (Stock_Code row) of
        None \<Rightarrow> new_state row
      | Some s \<Rightarrow> s)"

text \<open>The rows of one security that are buys, in ledger order.\<close>

definition buys_of :: "string \<Rightarrow> rat transaction list \<Rightarrow> rat transaction list" where
  "buys_of code rows = filter (\<lambda>r. Stock_Code r = code \<and> Type r = ''Buy'') rows"

definition buy_amount :: "rat transaction \<Rightarrow> rat" where
  "buy_amount r = Quantity r * Price r + Fee r + Tax r"

text \<open>
  The value of the local variable \<^verbatim>\<open>realized_profit\<close> at each row of the loop, in
  ledger order: \<open>None\<close> at a buy, the profit attributed to the event at any other row.
  It is read from the entry of the row's code once the row's sell totals are booked.
\<close>

fun profit_events :: "stock_status \<Rightarrow> rat transaction list \<Rightarrow> rat option list" where
  "profit_events stock_status [] = []"
| "profit_events stock_status (row # rows) =
     (let stock_status1 = process_row stock_status row
      in (if Type row = ''Buy'' then None
          else Some (sell_profit (state_before stock_status1 row) row))
         # profit_events stock_status1 rows)"

section \<open>Price resolution\<close>

text \<open>
  Exceptions are values: what a provider, a conversion or a later step raised. The
  handlers of \<^verbatim>\<open>index\<close> tell \<^verbatim>\<open>ValueError\<close> from every other exception.
\<close>

datatype exn = ValueError | OverflowError | OtherError

text \<open>
  The dictionary \<^verbatim>\<open>{"price": ..., "name": ...}\<close> returned by \<^verbatim>\<open>fetch_stock_info\<close>. The
  resolver gives it a float for its price; the summary is given the dictionaries whose
  price is a number.
\<close>

record 'n stock_info =
  price :: 'n
  info_name :: string

text \<open>An entry of \<^verbatim>\<open>fetch_stock_info.cache\<close>.\<close>

record cache_entry =
  timestamp :: rat
  data :: "pyfloat stock_info"

text \<open>
  The attributes kept on the function object: the price cache, keyed by the full code,
  and the snapshot of prices read from the spreadsheet (a finite dictionary, whose
  emptiness the code tests); each of its values is a result of \<^verbatim>\<open>float()\<close>.
\<close>

record resolver =
  cache :: "string \<rightharpoonup> cache_entry"
  google_sheets_prices :: "(string \<times> pyfloat) list"

text \<open>
  What the resolver asks of the outside at one call: the table returned by
  \<^verbatim>\<open>load_stock_names()\<close>, keyed by base code and market, and the outcome of the
  \<^verbatim>\<open>yfinance\<close> request for one day of history: an exception, an empty frame
  (\<open>Inr None\<close>), or the last close, a float that may be \<^verbatim>\<open>nan\<close>.
\<close>

record providers =
  load_stock_names :: "(string \<times> string) \<rightharpoonup> string"
  yf_last_close :: "string \<Rightarrow> exn + pyfloat option"

text \<open>The default name, the UTF-8 bytes of the four characters of the source literal.\<close>

definition unknown_name :: string where
  "unknown_name = map char_of
     [0xE6, 0x9C, 0xAA, 0xE7, 0x9F, 0xA5, 0xE5, 0x90, 0x8D, 0xE7, 0xA8, 0xB1 :: nat]"

text \<open>The snapshot tier: \<^verbatim>\<open>price = 0\<close>, replaced by the snapshot's value for the code.\<close>

definition sheet_price :: "(string \<times> pyfloat) list \<Rightarrow> string \<Rightarrow> pyfloat" where
  "sheet_price prices full_code =
     (if prices \<noteq> []
      then (case map_of prices full_code of None \<Rightarrow> Number 0 | Some v \<Rightarrow> v)
      else Number 0)"

text \<open>The fallback tier, the \<^verbatim>\<open>try\<close> block entered when the price is still 0.\<close>

definition yahoo_price :: "providers \<Rightarrow> string \<Rightarrow> pyfloat" where
  "yahoo_price env full_code =
     (case yf_last_close env full_code of
        Inl e \<Rightarrow> Number 0
      | Inr None \<Rightarrow> Number 0
      | Inr (Some close) \<Rightarrow> close)"

text \<open>
  \<^verbatim>\<open>fetch_stock_info(full_code)\<close>, with the reading of \<^verbatim>\<open>time.time()\<close> as
  \<open>current_time\<close>. It returns the result and the resolver with its cache updated.
  The test \<^verbatim>\<open>price == 0\<close> is false of \<^verbatim>\<open>nan\<close> and of the infinities.
\<close>

definition fetch_stock_info ::
  "providers \<Rightarrow> rat \<Rightarrow> resolver \<Rightarrow> string \<Rightarrow> pyfloat stock_info \<times> resolver" where
  "fetch_stock_info env current_time r full_code =
     (let code = split_dot_first full_code;
          market_key = (if endswith full_code ''.TWO'' then ''TWO'' else ''TWSE'');
          cached_data = cache r full_code
      in case (case cached_data of
                 None \<Rightarrow> None
               | Some c \<Rightarrow> if current_time - timestamp c < 1800 then Some c else None) of
           Some c \<Rightarrow> (data c, r)
         | None \<Rightarrow>
             (let name = (case load_stock_names env (code, market_key) of
                            None \<Rightarrow> unknown_name
                          | Some n \<Rightarrow> n);
                  price0 = sheet_price (google_sheets_prices r) full_code;
                  price1 = (if price0 = Number 0 then yahoo_price env full_code else price0);
                  result = \<lparr>price = py_round price1, info_name = name\<rparr>
              in (result,
                  r\<lparr>cache := (cache r)(full_code \<mapsto>
                       \<lparr>timestamp = current_time, data = result\<rparr>)\<rparr>)))"

text \<open>
  Fixed surroundings for concrete runs: a resolver whose cache and snapshot are empty,
  providers with no name table whose quote request always fails, and providers whose
  quote request returns one close for every code.
\<close>

definition empty_resolver :: resolver where
  "empty_resolver = \<lparr>cache = Map.empty, google_sheets_prices = []\<rparr>"

definition offline :: providers where
  "offline = \<lparr>load_stock_names = Map.empty, yf_last_close = (\<lambda>full_code. Inl OtherError)\<rparr>"

definition closing_at :: "pyfloat \<Rightarrow> providers" where
  "closing_at close =
     \<lparr>load_stock_names = Map.empty, yf_last_close = (\<lambda>full_code. Inr (Some close))\<rparr>"

section \<open>The portfolio summary\<close>

text \<open>A dictionary appended to \<^verbatim>\<open>result\<close>.\<close>

record portfolio_line =
  Line_Stock_Code :: string
  Line_Stock_Name :: string
  Line_Quantity :: int
  Avg_Buy_Price :: rat
  Current_Price :: rat
  Total_Cost :: int
  Market_Value :: int
  Unrealized_Profit :: int
  Realized_Profit :: int
  Full_Code :: string

text \<open>The six values returned by \<^verbatim>\<open>get_portfolio_summary\<close>, also the loop's accumulators.\<close>

record summary =
  result :: "portfolio_line list"
  total_quantity :: rat
  total_cost :: rat
  total_market_value :: rat
  total_unrealized_profit :: rat
  total_realized_profit :: rat

definition empty_summary :: summary where
  "empty_summary =
     \<lparr>result = [], total_quantity = 0, total_cost = 0, total_market_value = 0,
      total_unrealized_profit = 0, total_realized_profit = 0\<rparr>"

text \<open>
  The resolver is a parameter \<open>fetch\<close> of the summary: a function on the state \<open>'w\<close> of
  everything it reads and writes (cache, snapshot, clock, providers), whose prices are
  numbers. The resolver of \<^verbatim>\<open>app.py\<close> is \<open>fetch_stock_info env current_time\<close> on
  \<open>resolver\<close>, in the runs where the price it returns is a number; with any other
  float \<^verbatim>\<open>int()\<close> raises while the line is built, and nothing is returned.
\<close>

definition current_price_for ::
  "('w \<Rightarrow> string \<Rightarrow> rat stock_info \<times> 'w) \<Rightarrow> 'w \<Rightarrow> string \<Rightarrow> stock_state \<Rightarrow> rat \<times> 'w" where
  "current_price_for fetch w full_code d =
     (if quantity d > 0
      then (let (stock_info, w1) = fetch w full_code in (price stock_info, w1))
      else (0, w))"

definition market_value :: "stock_state \<Rightarrow> rat \<Rightarrow> rat" where
  "market_value d current_price = quantity d * current_price"

definition unrealized_profit :: "stock_state \<Rightarrow> rat \<Rightarrow> rat" where
  "unrealized_profit d current_price =
     (if quantity d > 0 then (current_price - avg_buy_price d) * quantity d else 0)"

definition current_cost :: "stock_state \<Rightarrow> rat" where
  "current_cost d = (if quantity d > 0 then avg_buy_price d * quantity d else 0)"

definition summary_line :: "string \<Rightarrow> stock_state \<Rightarrow> rat \<Rightarrow> portfolio_line" where
  "summary_line full_code d current_price =
     \<lparr>Line_Stock_Code = split_dot_first full_code,
      Line_Stock_Name = name d,
      Line_Quantity = py_int (quantity d),
      Avg_Buy_Price = py_round2 (avg_buy_price d),
      Current_Price = py_round2 current_price,
      Total_Cost = py_int (current_cost d),
      Market_Value = py_int (market_value d current_price),
      Unrealized_Profit = py_int (unrealized_profit d current_price),
      Realized_Profit = py_int (realized_profit d),
      Full_Code = full_code\<rparr>"

text \<open>The second half of an iteration: the totals grow and the line is appended.\<close>

definition add_line :: "summary \<Rightarrow> string \<Rightarrow> stock_state \<Rightarrow> rat \<Rightarrow> summary" where
  "add_line acc full_code d current_price =
     \<lparr>result = result acc @ [summary_line full_code d current_price],
      total_quantity = total_quantity acc + quantity d,
      total_cost = total_cost acc + current_cost d,
      total_market_value = total_market_value acc + market_value d current_price,
      total_unrealized_profit =
        total_unrealized_profit acc + unrealized_profit d current_price,
      total_realized_profit = total_realized_profit acc + realized_profit d\<rparr>"

text \<open>\<^verbatim>\<open>for full_code, data in stock_status.items()\<close>.\<close>

fun summary_loop ::
  "('w \<Rightarrow> string \<Rightarrow> rat stock_info \<times> 'w) \<Rightarrow> 'w \<Rightarrow> stock_status \<Rightarrow> summary \<Rightarrow> summary \<times> 'w" where
  "summary_loop fetch w [] acc = (acc, w)"
| "summary_loop fetch w ((full_code, d) # items) acc =
     (let (current_price, w1) = current_price_for fetch w full_code d
      in summary_loop fetch w1 items (add_line acc full_code d current_price))"

text \<open>
  \<^verbatim>\<open>get_portfolio_summary(transactions)\<close> on a given list (the default argument, which
  reads the ledger store, is the caller's business).
\<close>

definition get_portfolio_summary ::
  "('w \<Rightarrow> string \<Rightarrow> rat stock_info \<times> 'w) \<Rightarrow> 'w \<Rightarrow> rat transaction list \<Rightarrow> summary \<times> 'w" where
  "get_portfolio_summary fetch w transactions =
     (if transactions = [] then (empty_summary, w)
      else summary_loop fetch w (reduce_transactions transactions) empty_summary)"

text \<open>
  The current prices met by the loop, one per security in dictionary order, and the
  codes for which the resolver is called.
\<close>

fun current_prices ::
  "('w \<Rightarrow> string \<Rightarrow> rat stock_info \<times> 'w) \<Rightarrow> 'w \<Rightarrow> stock_status \<Rightarrow> rat list" where
  "current_prices fetch w [] = []"
| "current_prices fetch w ((full_code, d) # items) =
     (let (current_price, w1) = current_price_for fetch w full_code d
      in current_price # current_prices fetch w1 items)"

definition priced_codes :: "stock_status \<Rightarrow> string list" where
  "priced_codes items = map fst (filter (\<lambda>(full_code, d). quantity d > 0) items)"

text \<open>A resolver for concrete runs: it quotes every code at one price and keeps no state.\<close>

definition quoted_at :: "rat \<Rightarrow> unit \<Rightarrow> string \<Rightarrow> rat stock_info \<times> unit" where
  "quoted_at p w full_code = (\<lparr>price = p, info_name = []\<rparr>, w)"

section \<open>The entry form\<close>

text \<open>
  The fields of the posted form read by the \<^verbatim>\<open>add_transaction\<close> action of
  \<^verbatim>\<open>index\<close>; \<open>None\<close> is a field that was not sent.
\<close>

record entry_form =
  form_date :: "string option"
  form_code :: "string option"
  form_name :: "string option"
  form_market :: "string option"
  form_type :: "string option"
  form_quantity :: "string option"
  form_price :: "string option"

text \<open>
  The messages assigned to \<^verbatim>\<open>error\<close>, in the order of the source: the four of the
  validation, the one of the handler of \<^verbatim>\<open>ValueError\<close>, the one of the handler of any
  other exception, and the two of the ledger store.
\<close>

datatype entry_error =
    Code_Empty
  | Quantity_Not_Positive
  | Quantity_Not_Lot
  | Price_Not_Positive
  | Invalid_Input
  | Add_Error exn
  | Append_Failed
  | No_Connection

definition handler :: "exn \<Rightarrow> entry_error" where
  "handler e = (case e of ValueError \<Rightarrow> Invalid_Input | other \<Rightarrow> Add_Error other)"

text \<open>
  \<^verbatim>\<open>form.get(key, default)\<close>, and \<^verbatim>\<open>form.get(key)\<close> under \<^verbatim>\<open>not\<close>: a field that is
  missing or empty is false, any other is true and carries its text.
\<close>

definition form_get :: "string option \<Rightarrow> string \<Rightarrow> string" where
  "form_get field dflt = (case field of None \<Rightarrow> dflt | Some v \<Rightarrow> v)"

definition nonempty :: "string option \<Rightarrow> string option" where
  "nonempty field = (case field of None \<Rightarrow> None | Some v \<Rightarrow> if v = [] then None else Some v)"

text \<open>The default of the name field, the UTF-8 bytes of the source literal.\<close>

definition unknown_stock :: string where
  "unknown_stock = map char_of
     [0xE6, 0x9C, 0xAA, 0xE7, 0x9F, 0xA5, 0xE8, 0x82, 0xA1, 0xE7, 0xA5, 0xA8 :: nat]"

text \<open>The fee and the tax computed by the form, on floats.\<close>

definition entry_fee :: "pyfloat \<Rightarrow> pyfloat \<Rightarrow> pyfloat" where
  "entry_fee price_val quantity_val =
     py_max (Number 20) (py_mul (py_mul price_val quantity_val) (Number 0.001425))"

definition entry_tax :: "string \<Rightarrow> pyfloat \<Rightarrow> pyfloat \<Rightarrow> pyfloat" where
  "entry_tax trans_type price_val quantity_val =
     (if trans_type = ''Sell'' then py_mul (py_mul price_val quantity_val) (Number 0.003)
      else Number 0)"

text \<open>
  The \<^verbatim>\<open>try\<close> block of the action up to the new row. \<open>float\<close> and \<open>strip\<close> are
  Python's \<^verbatim>\<open>float()\<close> and \<^verbatim>\<open>str.strip()\<close>, parameters: \<open>float\<close> returns a float, which
  may be an infinity or \<^verbatim>\<open>nan\<close>, or \<open>Inl\<close> the exception it raised, which a handler
  turns into an error message.
\<close>

definition new_transaction ::
  "(string \<Rightarrow> exn + pyfloat) \<Rightarrow> (string \<Rightarrow> string) \<Rightarrow> string \<Rightarrow> entry_form
     \<Rightarrow> entry_error + pyfloat transaction" where
  "new_transaction float strip default_date form =
     (let date = form_get (form_date form) default_date;
          code = strip (form_get (form_code form) []);
          name = (let n = strip (form_get (form_name form) [])
                  in if n = [] then unknown_stock else n);
          market = form_get (form_market form) ''TWSE'';
          trans_type = form_get (form_type form) ''Buy''
      in if code = [] then Inl Code_Empty
         else case nonempty (form_quantity form) of
           None \<Rightarrow> Inl Quantity_Not_Positive
         | Some quantity_text \<Rightarrow>
         (case float quantity_text of
           Inl e \<Rightarrow> Inl (handler e)
         | Inr quantity_val \<Rightarrow>
             if py_le quantity_val (Number 0) then Inl Quantity_Not_Positive
             else if float_mod quantity_val 1000 \<noteq> Number 0 then Inl Quantity_Not_Lot
             else case nonempty (form_price form) of
               None \<Rightarrow> Inl Price_Not_Positive
             | Some price_text \<Rightarrow>
             (case float price_text of
               Inl e \<Rightarrow> Inl (handler e)
             | Inr price_val \<Rightarrow>
                 if py_le price_val (Number 0) then Inl Price_Not_Positive
                 else Inr \<lparr>Date = date,
                           Stock_Code = code @ (if market = ''TWO'' then ''.TWO'' else ''.TW''),
                           Stock_Name = name,
                           Type = trans_type,
                           Quantity = quantity_val,
                           Price = price_val,
                           Fee = entry_fee price_val quantity_val,
                           Tax = entry_tax trans_type price_val quantity_val\<rparr>)))"

text \<open>
  The ledger store is the spreadsheet: \<open>connected\<close> says that \<^verbatim>\<open>setup_google_sheets\<close>
  gave a client, \<open>append_ok\<close> that \<^verbatim>\<open>add_transaction_to_google_sheet\<close> returned
  \<^verbatim>\<open>True\<close>, in which case the row is the new last row of the sheet. After the append
  the action reads the ledger again and summarises it, still inside the \<^verbatim>\<open>try\<close>:
  \<open>refresh_error\<close> is what that raised, if anything.
\<close>

record ledger_store =
  connected :: bool
  append_ok :: bool
  refresh_error :: "exn option"

text \<open>The action: the error shown, if any, and the ledger after it.\<close>

definition add_transaction ::
  "(string \<Rightarrow> exn + pyfloat) \<Rightarrow> (string \<Rightarrow> string) \<Rightarrow> string \<Rightarrow> ledger_store
     \<Rightarrow> entry_form \<Rightarrow> pyfloat transaction list
     \<Rightarrow> entry_error option \<times> pyfloat transaction list" where
  "add_transaction float strip default_date store form ledger =
     (case new_transaction float strip default_date form of
        Inl e \<Rightarrow> (Some e, ledger)
      | Inr t \<Rightarrow>
          if connected store
          then (if append_ok store
                then (case refresh_error store of
                        None \<Rightarrow> (None, ledger @ [t])
                      | Some e \<Rightarrow> (Some (handler e), ledger @ [t]))
                else (Some Append_Failed, ledger))
          else (Some No_Connection, ledger))"

text \<open>
  For concrete runs: a conversion that reads six texts as \<^verbatim>\<open>float()\<close> does and raises
  \<^verbatim>\<open>ValueError\<close> on any other, and the stripping of ASCII white space.
\<close>

definition sample_float :: "string \<Rightarrow> exn + pyfloat" where
  "sample_float text =
     (if text = ''1000'' then Inr (Number 1000)
      else if text = ''1500'' then Inr (Number 1500)
      else if text = ''10.5'' then Inr (Number 10.5)
      else if text = ''-5'' then Inr (Number (- 5))
      else if text = ''nan'' then Inr NaN
      else if text = ''inf'' then Inr Pos_Inf
      else Inl ValueError)"

definition is_space :: "char \<Rightarrow> bool" where
  "is_space c = (c \<in> set (map char_of [0x09, 0x0A, 0x0B, 0x0C, 0x0D, 0x1C, 0x1D, 0x1E, 0x1F, 0x20 :: nat]))"

definition ascii_strip :: "string \<Rightarrow> string" where
  "ascii_strip s = rev (dropWhile is_space (rev (dropWhile is_space s)))"

section \<open>The ledger reduction\<close>

lemma map_of_process_row:
  "map_of (process_row st row) =
     (map_of st)(Stock_Code row \<mapsto> row_update row (state_before st row))"
  by (rule ext)
     (auto simp: process_row_def state_before_def Let_def AList.map_of_map_entry
                 map_add_def split: option.splits)

lemma stock_status_loop_append:
  "stock_status_loop st (rows @ [row]) = process_row (stock_status_loop st rows) row"
  by (induction rows arbitrary: st) simp_all

lemma reduce_transactions_snoc:
  "reduce_transactions (rows @ [row]) = process_row (reduce_transactions rows) row"
  by (simp add: reduce_transactions_def stock_status_loop_append)

lemma state_before_process_row:
  "state_before (process_row st row) r =
     (if Stock_Code r = Stock_Code row then row_update row (state_before st row)
      else state_before st r)"
  by (simp add: state_before_def map_of_process_row)

lemma buy_fields_row_update:
  "total_buy_cost (row_update row s) =
     total_buy_cost s + (if Type row = ''Buy'' then buy_amount row else 0)"
  "buy_quantity (row_update row s) =
     buy_quantity s + (if Type row = ''Buy'' then Quantity row else 0)"
  by (simp_all add: row_update_def buy_update_def sell_update_def buy_amount_def Let_def)

lemma buy_fields_state_before_cong:
  "Stock_Code r = Stock_Code row \<Longrightarrow>
     total_buy_cost (state_before st r) = total_buy_cost (state_before st row) \<and>
     buy_quantity (state_before st r) = buy_quantity (state_before st row)"
  by (simp add: state_before_def new_state_def split: option.splits)

lemma buy_totals:
  "total_buy_cost (state_before (reduce_transactions rows) r) =
     sum_list (map buy_amount (buys_of (Stock_Code r) rows)) \<and>
   buy_quantity (state_before (reduce_transactions rows) r) =
     sum_list (map Quantity (buys_of (Stock_Code r) rows))"
proof (induction rows arbitrary: r rule: rev_induct)
  case Nil
  show ?case
    by (simp add: reduce_transactions_def state_before_def new_state_def buys_of_def)
next
  case (snoc row rows)
  show ?case
  proof (cases "Stock_Code r = Stock_Code row")
    case True
    with snoc [of row] show ?thesis
      by (simp add: reduce_transactions_snoc state_before_process_row
                    buy_fields_row_update buys_of_def)
  next
    case False
    with snoc [of r] show ?thesis
      by (simp add: reduce_transactions_snoc state_before_process_row buys_of_def)
  qed
qed

lemma buy_quantity_nonneg:
  assumes "\<forall>r \<in> set rows. 0 \<le> Quantity r"
  shows "0 \<le> sum_list (map Quantity (buys_of c rows))"
  using assms by (intro sum_list_nonneg) (auto simp: buys_of_def)

lemma distinct_process_row:
  "distinct (map fst st) \<Longrightarrow> distinct (map fst (process_row st row))"
  by (auto simp: process_row_def Let_def map_of_eq_None_iff intro!: AList.distinct_map_entry)

lemma distinct_stock_status_loop:
  "distinct (map fst st) \<Longrightarrow> distinct (map fst (stock_status_loop st rows))"
  by (induction rows arbitrary: st) (simp_all add: distinct_process_row)

lemma distinct_reduce_transactions: "distinct (map fst (reduce_transactions rows))"
  by (simp add: reduce_transactions_def distinct_stock_status_loop)

lemma not_priced:
  assumes "distinct (map fst items)" "i < length items" "\<not> quantity (snd (items ! i)) > 0"
  shows "fst (items ! i) \<notin> set (priced_codes items)"
proof
  assume "fst (items ! i) \<in> set (priced_codes items)"
  then obtain c d where cd: "(c, d) \<in> set items" "quantity d > 0" "c = fst (items ! i)"
    by (auto simp: priced_codes_def)
  then obtain j where j: "j < length items" "items ! j = (c, d)"
    by (auto simp: in_set_conv_nth)
  from j have d: "snd (items ! j) = d" by simp
  from j cd assms(1,2) have "i = j"
    by (metis distinct_conv_nth fst_conv length_map nth_map)
  with d cd(2) assms(3) show False by simp
qed

text \<open>
  C1. The reduction is one pass from left to right: the state of a list with one more
  row is the state of the list with that row processed, and only the entry of the row's
  code changes. A Buy adds its quantity to the quantity held and to the buy quantity,
  and quantity * price + fee + tax to the buy cost. A Sell takes its quantity from the
  quantity held, adds quantity * price - fee - tax to the sell revenue, its quantity to
  the sell quantity, and (price - average buy price) * quantity - fee - tax to the
  realized profit, where the average buy price is the buy cost of all buys of the code
  up to that row divided by their quantity, or 0 when that quantity is 0. The rows carry
  quantities that are not negative.
\<close>

theorem ledger_pass_buy_sell:
  assumes wf: "\<forall>r \<in> set (rows @ [row]). 0 \<le> Quantity r"
  shows
    "let before = state_before (reduce_transactions rows) row;
         after = state_before (reduce_transactions (rows @ [row])) row;
         buys = buys_of (Stock_Code row) (rows @ [row]);
         cumulative_buy_cost = sum_list (map buy_amount buys);
         cumulative_buy_quantity = sum_list (map Quantity buys);
         average_buy_price =
           (if cumulative_buy_quantity = 0 then 0
            else cumulative_buy_cost / cumulative_buy_quantity)
     in reduce_transactions (rows @ [row]) = process_row (reduce_transactions rows) row \<and>
        map_of (reduce_transactions (rows @ [row])) (Stock_Code row) = Some after \<and>
        (\<forall>c. c \<noteq> Stock_Code row \<longrightarrow>
           map_of (reduce_transactions (rows @ [row])) c = map_of (reduce_transactions rows) c) \<and>
        total_buy_cost after = cumulative_buy_cost \<and>
        buy_quantity after = cumulative_buy_quantity \<and>
        (Type row = ''Buy'' \<longrightarrow>
           quantity after = quantity before + Quantity row \<and>
           total_buy_cost after =
             total_buy_cost before + (Quantity row * Price row + Fee row + Tax row) \<and>
           buy_quantity after = buy_quantity before + Quantity row \<and>
           total_sell_revenue after = total_sell_revenue before \<and>
           sell_quantity after = sell_quantity before \<and>
           realized_profit after = realized_profit before) \<and>
        (Type row = ''Sell'' \<longrightarrow>
           quantity after = quantity before - Quantity row \<and>
           total_sell_revenue after =
             total_sell_revenue before + (Quantity row * Price row - Fee row - Tax row) \<and>
           sell_quantity after = sell_quantity before + Quantity row \<and>
           realized_profit after =
             realized_profit before +
               ((Price row - average_buy_price) * Quantity row - Fee row - Tax row) \<and>
           total_buy_cost after = total_buy_cost before \<and>
           buy_quantity after = buy_quantity before)"
proof -
  let ?st = "reduce_transactions rows"
  let ?st' = "reduce_transactions (rows @ [row])"
  let ?before = "state_before ?st row"
  let ?after = "state_before ?st' row"
  let ?buys = "buys_of (Stock_Code row) (rows @ [row])"
  let ?cost = "sum_list (map buy_amount ?buys)"
  let ?bq = "sum_list (map Quantity ?buys)"
  have step: "?st' = process_row ?st row"
    by (rule reduce_transactions_snoc)
  have after: "?after = row_update row ?before"
    by (simp add: step state_before_process_row)
  have stored: "map_of ?st' (Stock_Code row) = Some ?after"
    by (simp add: after) (simp add: step map_of_process_row)
  have others: "\<forall>c. c \<noteq> Stock_Code row \<longrightarrow> map_of ?st' c = map_of ?st c"
    by (simp add: step map_of_process_row)
  have totals: "total_buy_cost ?after = ?cost" "buy_quantity ?after = ?bq"
    using buy_totals [of "rows @ [row]" row] by simp_all
  have buy: "Type row = ''Buy'' \<Longrightarrow>
      quantity ?after = quantity ?before + Quantity row \<and>
      total_buy_cost ?after =
        total_buy_cost ?before + (Quantity row * Price row + Fee row + Tax row) \<and>
      buy_quantity ?after = buy_quantity ?before + Quantity row \<and>
      total_sell_revenue ?after = total_sell_revenue ?before \<and>
      sell_quantity ?after = sell_quantity ?before \<and>
      realized_profit ?after = realized_profit ?before"
    by (simp add: after row_update_def buy_update_def)
  have nonneg: "0 \<le> ?bq"
    using wf by (rule buy_quantity_nonneg)
  have sell_fields: "Type row = ''Sell'' \<Longrightarrow>
      quantity ?after = quantity ?before - Quantity row \<and>
      total_sell_revenue ?after =
        total_sell_revenue ?before + (Quantity row * Price row - Fee row - Tax row) \<and>
      sell_quantity ?after = sell_quantity ?before + Quantity row \<and>
      total_buy_cost ?after = total_buy_cost ?before \<and>
      buy_quantity ?after = buy_quantity ?before \<and>
      realized_profit ?after =
        realized_profit ?before +
          ((Price row - avg_buy_price ?before) * Quantity row - Fee row - Tax row)"
    by (simp add: after row_update_def sell_update_def sell_profit_def avg_buy_price_def Let_def)
  have avg: "Type row = ''Sell'' \<Longrightarrow>
      avg_buy_price ?before = (if ?bq = 0 then 0 else ?cost / ?bq)"
  proof -
    assume sell: "Type row = ''Sell''"
    with sell_fields totals have "total_buy_cost ?before = ?cost" "buy_quantity ?before = ?bq"
      by simp_all
    with nonneg show ?thesis
      by (auto simp: avg_buy_price_def)
  qed
  show ?thesis
    unfolding Let_def
    using step stored others totals buy sell_fields avg by simp
qed

text \<open>The buy and the sell of the specification's example, as an instance.\<close>

theorem ledger_pass_buy_sell_witness:
  "(0 :: rat) \<le> Quantity \<lparr>Date = ''2024-01-02'', Stock_Code = ''2330.TW'', Stock_Name = ''TSMC'',
                  Type = ''Buy'', Quantity = 1000, Price = 10, Fee = 20, Tax = 0\<rparr> \<and>
   (0 :: rat) \<le> Quantity \<lparr>Date = ''2024-01-03'', Stock_Code = ''2330.TW'', Stock_Name = ''TSMC'',
                  Type = ''Sell'', Quantity = 1000, Price = 12, Fee = 20, Tax = 36\<rparr> \<and>
   map_of (reduce_transactions
       ([\<lparr>Date = ''2024-01-02'', Stock_Code = ''2330.TW'', Stock_Name = ''TSMC'',
          Type = ''Buy'', Quantity = 1000, Price = 10, Fee = 20, Tax = 0\<rparr>] @
        [\<lparr>Date = ''2024-01-03'', Stock_Code = ''2330.TW'', Stock_Name = ''TSMC'',
          Type = ''Sell'', Quantity = 1000, Price = 12, Fee = 20, Tax = 36\<rparr>])) ''2330.TW'' =
     Some \<lparr>name = ''TSMC'', quantity = 0, total_buy_cost = 10020, total_sell_revenue = 11944,
           total_fee_tax = 76, buy_quantity = 1000, sell_quantity = 1000,
           realized_profit = 0 + ((12 - 10020 / 1000) * 1000 - 20 - 36), is_otc = False\<rparr>"
  using ledger_pass_buy_sell
    [of "[\<lparr>Date = ''2024-01-02'', Stock_Code = ''2330.TW'', Stock_Name = ''TSMC'',
           Type = ''Buy'', Quantity = 1000, Price = 10, Fee = 20, Tax = 0\<rparr>]"
        "\<lparr>Date = ''2024-01-03'', Stock_Code = ''2330.TW'', Stock_Name = ''TSMC'',
          Type = ''Sell'', Quantity = 1000, Price = 12, Fee = 20, Tax = 36\<rparr>"]
  by (simp add: reduce_transactions_def process_row_def Let_def new_state_def
        row_update_def buy_update_def sell_update_def sell_profit_def avg_buy_price_def
        state_before_def endswith_def)

section \<open>The summary loop\<close>

lemma current_price_for_nonpos:
  "\<not> quantity d > 0 \<Longrightarrow> current_price_for fetch w c d = (0, w)"
  by (simp add: current_price_for_def)

lemma snd_current_price_for:
  "snd (current_price_for fetch w c d) = (if quantity d > 0 then snd (fetch w c) else w)"
  by (simp add: current_price_for_def split: prod.splits)

lemma summary_loop_state:
  "snd (summary_loop fetch w items acc) =
     foldl (\<lambda>w c. snd (fetch w c)) w (priced_codes items)"
proof (induction items arbitrary: w acc)
  case Nil
  show ?case by (simp add: priced_codes_def)
next
  case (Cons item items)
  obtain c d where item: "item = (c, d)" by (cases item)
  obtain p w1 where cp: "current_price_for fetch w c d = (p, w1)"
    by (cases "current_price_for fetch w c d")
  from snd_current_price_for [of fetch w c d] cp
  have w1: "w1 = (if quantity d > 0 then snd (fetch w c) else w)" by simp
  show ?case
    using Cons [of w1 "add_line acc c d p"]
    by (simp add: item cp w1 priced_codes_def)
qed

lemma summary_loop_result:
  "result (fst (summary_loop fetch w items acc)) =
     result acc @ map2 (\<lambda>(c, d) p. summary_line c d p) items (current_prices fetch w items)"
proof (induction items arbitrary: w acc)
  case Nil
  show ?case by simp
next
  case (Cons item items)
  obtain c d where item: "item = (c, d)" by (cases item)
  obtain p w1 where cp: "current_price_for fetch w c d = (p, w1)"
    by (cases "current_price_for fetch w c d")
  show ?case
    using Cons [of w1 "add_line acc c d p"]
    by (simp add: item cp add_line_def)
qed

lemma summary_loop_totals:
  "total_quantity (fst (summary_loop fetch w items acc)) =
     total_quantity acc + sum_list (map (\<lambda>(c, d). quantity d) items) \<and>
   total_cost (fst (summary_loop fetch w items acc)) =
     total_cost acc + sum_list (map (\<lambda>(c, d). current_cost d) items) \<and>
   total_realized_profit (fst (summary_loop fetch w items acc)) =
     total_realized_profit acc + sum_list (map (\<lambda>(c, d). realized_profit d) items) \<and>
   total_market_value (fst (summary_loop fetch w items acc)) =
     total_market_value acc +
       sum_list (map2 (\<lambda>(c, d) p. market_value d p) items (current_prices fetch w items)) \<and>
   total_unrealized_profit (fst (summary_loop fetch w items acc)) =
     total_unrealized_profit acc +
       sum_list (map2 (\<lambda>(c, d) p. unrealized_profit d p) items (current_prices fetch w items))"
proof (induction items arbitrary: w acc)
  case Nil
  show ?case by simp
next
  case (Cons item items)
  obtain c d where item: "item = (c, d)" by (cases item)
  obtain p w1 where cp: "current_price_for fetch w c d = (p, w1)"
    by (cases "current_price_for fetch w c d")
  show ?case
    using Cons [of w1 "add_line acc c d p"]
    by (simp add: item cp add_line_def)
qed

lemma length_current_prices: "length (current_prices fetch w items) = length items"
proof (induction items arbitrary: w)
  case Nil
  show ?case by simp
next
  case (Cons item items)
  then show ?case by (cases item) (simp split: prod.splits)
qed

lemma current_prices_nonpos:
  "i < length items \<Longrightarrow> \<not> quantity (snd (items ! i)) > 0 \<Longrightarrow>
     current_prices fetch w items ! i = 0"
proof (induction items arbitrary: w i)
  case Nil
  then show ?case by simp
next
  case (Cons item items)
  obtain c d where item: "item = (c, d)" by (cases item)
  obtain p w1 where cp: "current_price_for fetch w c d = (p, w1)"
    by (cases "current_price_for fetch w c d")
  show ?case
  proof (cases i)
    case 0
    with Cons.prems show ?thesis
      by (simp add: item current_price_for_def)
  next
    case (Suc j)
    with Cons.prems Cons.IH [of j w1] show ?thesis
      by (simp add: item cp)
  qed
qed

lemma get_portfolio_summary_loop:
  "get_portfolio_summary fetch w transactions =
     summary_loop fetch w (reduce_transactions transactions) empty_summary"
  by (simp add: get_portfolio_summary_def reduce_transactions_def)

text \<open>
  C2. For Buy(1000 at 10, fee 20, tax 0) followed by Sell(1000 at 12, fee 20, tax 36) on
  one security, whatever its code, names and dates and whatever the resolver, the summary
  has one line with average buy price 10.02, realized profit 1924, quantity 0, total
  cost 0 and unrealized profit 0; the totals are 0 but for the realized profit, 1924,
  and the resolver is not called.
\<close>

theorem spec_example_summary:
  "let (s, w1) = get_portfolio_summary fetch w
         [\<lparr>Date = date1, Stock_Code = code, Stock_Name = name1, Type = ''Buy'',
           Quantity = 1000, Price = 10, Fee = 20, Tax = 0\<rparr>,
          \<lparr>Date = date2, Stock_Code = code, Stock_Name = name2, Type = ''Sell'',
           Quantity = 1000, Price = 12, Fee = 20, Tax = 36\<rparr>]
   in w1 = w \<and>
      result s =
        [\<lparr>Line_Stock_Code = split_dot_first code, Line_Stock_Name = name1, Line_Quantity = 0,
          Avg_Buy_Price = 10.02, Current_Price = 0, Total_Cost = 0, Market_Value = 0,
          Unrealized_Profit = 0, Realized_Profit = 1924, Full_Code = code\<rparr>] \<and>
      total_quantity s = 0 \<and> total_cost s = 0 \<and> total_market_value s = 0 \<and>
      total_unrealized_profit s = 0 \<and> total_realized_profit s = 1924"
  by (simp add: get_portfolio_summary_def reduce_transactions_def process_row_def Let_def
        new_state_def row_update_def buy_update_def sell_update_def sell_profit_def
        avg_buy_price_def current_price_for_def add_line_def empty_summary_def
        summary_line_def current_cost_def market_value_def unrealized_profit_def
        py_int_def py_round2_def round_half_even_def)

text \<open>
  C4, as amended. Each of the totals (cost, market value, unrealized profit, realized
  profit) is the sum, over the securities of the reduced ledger, of the amount computed
  for the security before it is cut to an integer; the fields \<open>Total_Cost\<close>,
  \<open>Market_Value\<close>, \<open>Unrealized_Profit\<close> and \<open>Realized_Profit\<close> of the lines are those
  amounts truncated by \<^verbatim>\<open>int()\<close>. For the empty list the line list is empty and every
  total is 0.
\<close>

theorem summary_totals_are_sums:
  "let items = reduce_transactions transactions;
       prices = current_prices fetch w items;
       s = fst (get_portfolio_summary fetch w transactions)
   in total_cost s = sum_list (map (\<lambda>(c, d). current_cost d) items) \<and>
      total_market_value s = sum_list (map2 (\<lambda>(c, d) p. market_value d p) items prices) \<and>
      total_unrealized_profit s =
        sum_list (map2 (\<lambda>(c, d) p. unrealized_profit d p) items prices) \<and>
      total_realized_profit s = sum_list (map (\<lambda>(c, d). realized_profit d) items) \<and>
      map Total_Cost (result s) = map (\<lambda>(c, d). py_int (current_cost d)) items \<and>
      map Market_Value (result s) = map2 (\<lambda>(c, d) p. py_int (market_value d p)) items prices \<and>
      map Unrealized_Profit (result s) =
        map2 (\<lambda>(c, d) p. py_int (unrealized_profit d p)) items prices \<and>
      map Realized_Profit (result s) = map (\<lambda>(c, d). py_int (realized_profit d)) items \<and>
      fst (get_portfolio_summary fetch w []) =
        \<lparr>result = [], total_quantity = 0, total_cost = 0, total_market_value = 0,
         total_unrealized_profit = 0, total_realized_profit = 0\<rparr>"
proof -
  let ?items = "reduce_transactions transactions"
  let ?prices = "current_prices fetch w ?items"
  let ?s = "fst (get_portfolio_summary fetch w transactions)"
  have len: "length ?prices = length ?items"
    by (rule length_current_prices)
  have lines: "result ?s = map2 (\<lambda>(c, d) p. summary_line c d p) ?items ?prices"
    by (simp add: get_portfolio_summary_loop summary_loop_result empty_summary_def)
  have totals:
    "total_cost ?s = sum_list (map (\<lambda>(c, d). current_cost d) ?items)"
    "total_market_value ?s = sum_list (map2 (\<lambda>(c, d) p. market_value d p) ?items ?prices)"
    "total_unrealized_profit ?s =
       sum_list (map2 (\<lambda>(c, d) p. unrealized_profit d p) ?items ?prices)"
    "total_realized_profit ?s = sum_list (map (\<lambda>(c, d). realized_profit d) ?items)"
    using summary_loop_totals [of fetch w ?items empty_summary]
    by (simp_all add: get_portfolio_summary_loop empty_summary_def)
  have f1: "map Total_Cost (result ?s) = map (\<lambda>(c, d). py_int (current_cost d)) ?items"
    using len by (simp add: lines summary_line_def list_eq_iff_nth_eq split_beta)
  have f2: "map Market_Value (result ?s) =
      map2 (\<lambda>(c, d) p. py_int (market_value d p)) ?items ?prices"
    by (simp add: lines summary_line_def split_beta)
  have f3: "map Unrealized_Profit (result ?s) =
      map2 (\<lambda>(c, d) p. py_int (unrealized_profit d p)) ?items ?prices"
    by (simp add: lines summary_line_def split_beta)
  have f4: "map Realized_Profit (result ?s) = map (\<lambda>(c, d). py_int (realized_profit d)) ?items"
    using len by (simp add: lines summary_line_def list_eq_iff_nth_eq split_beta)
  have empty: "fst (get_portfolio_summary fetch w []) =
      \<lparr>result = [], total_quantity = 0, total_cost = 0, total_market_value = 0,
       total_unrealized_profit = 0, total_realized_profit = 0\<rparr>"
    by (simp add: get_portfolio_summary_def empty_summary_def)
  show ?thesis
    unfolding Let_def using totals f1 f2 f3 f4 empty by simp
qed

text \<open>
  The claim as first stated, with the line fields themselves summed, fails on one buy of
  2000 shares at 10.5 with the fee 29.925 of the entry form, quoted at 11 by the resolver:
  the total cost is 21029.925 and the line shows 21029, the total unrealized profit is
  970.075 and the line shows 970.
\<close>

theorem totals_vs_line_fields_counterexample:
  "fst (get_portfolio_summary (quoted_at 11) ()
          [\<lparr>Date = ''2024-01-02'', Stock_Code = ''2330.TW'', Stock_Name = ''TSMC'',
            Type = ''Buy'', Quantity = 2000, Price = 10.5, Fee = 29.925, Tax = 0\<rparr>]) =
     \<lparr>result =
        [\<lparr>Line_Stock_Code = ''2330'', Line_Stock_Name = ''TSMC'', Line_Quantity = 2000,
          Avg_Buy_Price = 10.51, Current_Price = 11, Total_Cost = 21029,
          Market_Value = 22000, Unrealized_Profit = 970, Realized_Profit = 0,
          Full_Code = ''2330.TW''\<rparr>],
      total_quantity = 2000, total_cost = 21029.925, total_market_value = 22000,
      total_unrealized_profit = 970.075, total_realized_profit = 0\<rparr> \<and>
   (21029.925 :: rat) \<noteq> of_int 21029 \<and> (970.075 :: rat) \<noteq> of_int 970"
  by code_simp

text \<open>
  C5, as amended. The resolver is called for the securities whose quantity held is
  positive, in order, and for no other. The line of a security whose quantity held is
  zero or negative has current price 0, market value 0 and unrealized profit 0; its
  \<open>Realized_Profit\<close> is the accumulated realized profit truncated by \<^verbatim>\<open>int()\<close>, and the
  total realized profit takes the accumulated realized profit of every security in full.
\<close>

theorem exited_positions_not_priced:
  "let items = reduce_transactions transactions;
       (s, w1) = get_portfolio_summary fetch w transactions
   in length (result s) = length items \<and>
      w1 = foldl (\<lambda>w c. snd (fetch w c)) w (priced_codes items) \<and>
      total_realized_profit s = sum_list (map (\<lambda>(c, d). realized_profit d) items) \<and>
      (\<forall>i < length items. quantity (snd (items ! i)) \<le> 0 \<longrightarrow>
         fst (items ! i) \<notin> set (priced_codes items) \<and>
         Full_Code (result s ! i) = fst (items ! i) \<and>
         Current_Price (result s ! i) = 0 \<and>
         Market_Value (result s ! i) = 0 \<and>
         Unrealized_Profit (result s ! i) = 0 \<and>
         Realized_Profit (result s ! i) = py_int (realized_profit (snd (items ! i))))"
proof -
  let ?items = "reduce_transactions transactions"
  let ?prices = "current_prices fetch w ?items"
  let ?r = "get_portfolio_summary fetch w transactions"
  have len: "length ?prices = length ?items"
    by (rule length_current_prices)
  have lines: "result (fst ?r) = map2 (\<lambda>(c, d) p. summary_line c d p) ?items ?prices"
    by (simp add: get_portfolio_summary_loop summary_loop_result empty_summary_def)
  have state: "snd ?r = foldl (\<lambda>w c. snd (fetch w c)) w (priced_codes ?items)"
    by (simp add: get_portfolio_summary_loop summary_loop_state)
  have total: "total_realized_profit (fst ?r) =
      sum_list (map (\<lambda>(c, d). realized_profit d) ?items)"
    using summary_loop_totals [of fetch w ?items empty_summary]
    by (simp add: get_portfolio_summary_loop empty_summary_def)
  have line: "Full_Code (result (fst ?r) ! i) = fst (?items ! i) \<and>
      Current_Price (result (fst ?r) ! i) = 0 \<and>
      Market_Value (result (fst ?r) ! i) = 0 \<and>
      Unrealized_Profit (result (fst ?r) ! i) = 0 \<and>
      Realized_Profit (result (fst ?r) ! i) = py_int (realized_profit (snd (?items ! i)))"
    if i: "i < length ?items" and q: "quantity (snd (?items ! i)) \<le> 0" for i
  proof -
    have p0: "?prices ! i = 0"
      using i q by (intro current_prices_nonpos) simp_all
    have "result (fst ?r) ! i = summary_line (fst (?items ! i)) (snd (?items ! i)) 0"
      using i len by (simp add: lines split_beta p0)
    then show ?thesis
      using q by (simp add: summary_line_def market_value_def unrealized_profit_def
                            py_round2_def round_half_even_def py_int_def)
  qed
  have unpriced: "fst (?items ! i) \<notin> set (priced_codes ?items)"
    if "i < length ?items" "quantity (snd (?items ! i)) \<le> 0" for i
    using that by (intro not_priced distinct_reduce_transactions) simp_all
  show ?thesis
    unfolding Let_def
    using len lines state total line unpriced by (simp add: split_beta)
qed

text \<open>
  A position bought and sold in full with a realized profit of 428.5: the line keeps 428,
  so the realized profit is not unchanged in the line.
\<close>

theorem realized_profit_line_counterexample:
  "reduce_transactions
     [\<lparr>Date = ''2024-01-02'', Stock_Code = ''2330.TW'', Stock_Name = ''TSMC'',
       Type = ''Buy'', Quantity = 1000, Price = 10, Fee = 20, Tax = 0\<rparr>,
      \<lparr>Date = ''2024-01-03'', Stock_Code = ''2330.TW'', Stock_Name = ''TSMC'',
       Type = ''Sell'', Quantity = 1000, Price = 10.5, Fee = 20, Tax = 31.5\<rparr>] =
     [(''2330.TW'',
       \<lparr>name = ''TSMC'', quantity = 0, total_buy_cost = 10020, total_sell_revenue = 10448.5,
        total_fee_tax = 71.5, buy_quantity = 1000, sell_quantity = 1000,
        realized_profit = 428.5, is_otc = False\<rparr>)] \<and>
   map Realized_Profit (result (fst (get_portfolio_summary (quoted_at 0) ()
     [\<lparr>Date = ''2024-01-02'', Stock_Code = ''2330.TW'', Stock_Name = ''TSMC'',
       Type = ''Buy'', Quantity = 1000, Price = 10, Fee = 20, Tax = 0\<rparr>,
      \<lparr>Date = ''2024-01-03'', Stock_Code = ''2330.TW'', Stock_Name = ''TSMC'',
       Type = ''Sell'', Quantity = 1000, Price = 10.5, Fee = 20, Tax = 31.5\<rparr>]))) = [428] \<and>
   (428.5 :: rat) \<noteq> of_int 428"
  by code_simp

text \<open>The same position as an instance of the amended statement.\<close>

theorem exited_positions_not_priced_witness:
  "0 < length (reduce_transactions
     [\<lparr>Date = ''2024-01-02'', Stock_Code = ''2330.TW'', Stock_Name = ''TSMC'',
       Type = ''Buy'', Quantity = 1000, Price = 10, Fee = 20, Tax = 0\<rparr>,
      \<lparr>Date = ''2024-01-03'', Stock_Code = ''2330.TW'', Stock_Name = ''TSMC'',
       Type = ''Sell'', Quantity = 1000, Price = 10.5, Fee = 20, Tax = 31.5\<rparr>]) \<and>
   quantity (snd (reduce_transactions
     [\<lparr>Date = ''2024-01-02'', Stock_Code = ''2330.TW'', Stock_Name = ''TSMC'',
       Type = ''Buy'', Quantity = 1000, Price = 10, Fee = 20, Tax = 0\<rparr>,
      \<lparr>Date = ''2024-01-03'', Stock_Code = ''2330.TW'', Stock_Name = ''TSMC'',
       Type = ''Sell'', Quantity = 1000, Price = 10.5, Fee = 20, Tax = 31.5\<rparr>] ! 0)) \<le> 0 \<and>
   Current_Price (result (fst (get_portfolio_summary (quoted_at 11) ()
     [\<lparr>Date = ''2024-01-02'', Stock_Code = ''2330.TW'', Stock_Name = ''TSMC'',
       Type = ''Buy'', Quantity = 1000, Price = 10, Fee = 20, Tax = 0\<rparr>,
      \<lparr>Date = ''2024-01-03'', Stock_Code = ''2330.TW'', Stock_Name = ''TSMC'',
       Type = ''Sell'', Quantity = 1000, Price = 10.5, Fee = 20, Tax = 31.5\<rparr>])) ! 0) = 0 \<and>
   Market_Value (result (fst (get_portfolio_summary (quoted_at 11) ()
     [\<lparr>Date = ''2024-01-02'', Stock_Code = ''2330.TW'', Stock_Name = ''TSMC'',
       Type = ''Buy'', Quantity = 1000, Price = 10, Fee = 20, Tax = 0\<rparr>,
      \<lparr>Date = ''2024-01-03'', Stock_Code = ''2330.TW'', Stock_Name = ''TSMC'',
       Type = ''Sell'', Quantity = 1000, Price = 10.5, Fee = 20, Tax = 31.5\<rparr>])) ! 0) = 0"
proof -
  let ?T = "[\<lparr>Date = ''2024-01-02'', Stock_Code = ''2330.TW'', Stock_Name = ''TSMC'',
       Type = ''Buy'', Quantity = 1000 :: rat, Price = 10, Fee = 20, Tax = 0\<rparr>,
      \<lparr>Date = ''2024-01-03'', Stock_Code = ''2330.TW'', Stock_Name = ''TSMC'',
       Type = ''Sell'', Quantity = 1000, Price = 10.5, Fee = 20, Tax = 31.5\<rparr>]"
  have h: "0 < length (reduce_transactions ?T) \<and>
      quantity (snd (reduce_transactions ?T ! 0)) \<le> 0"
    by code_simp
  with exited_positions_not_priced
    [of ?T "quoted_at 11" "()"]
  show ?thesis
    by (simp add: Let_def split_beta)
qed

section \<open>Events of the ledger\<close>

lemma length_profit_events: "length (profit_events st rows) = length rows"
  by (induction rows arbitrary: st) (simp_all add: Let_def)

lemma profit_events_append:
  "profit_events st (rows @ [row]) =
     profit_events st rows @
       [if Type row = ''Buy'' then None
        else Some (sell_profit
               (state_before (process_row (stock_status_loop st rows) row) row) row)]"
  by (induction rows arbitrary: st) (simp_all add: Let_def)

lemma numeric_fields_state_before_cong:
  "Stock_Code r = Stock_Code row \<Longrightarrow>
     quantity (state_before st r) = quantity (state_before st row) \<and>
     total_buy_cost (state_before st r) = total_buy_cost (state_before st row) \<and>
     buy_quantity (state_before st r) = buy_quantity (state_before st row) \<and>
     total_sell_revenue (state_before st r) = total_sell_revenue (state_before st row) \<and>
     sell_quantity (state_before st r) = sell_quantity (state_before st row) \<and>
     realized_profit (state_before st r) = realized_profit (state_before st row)"
  by (simp add: state_before_def new_state_def split: option.splits)

lemma avg_buy_price_row_update:
  "Type row \<noteq> ''Buy'' \<Longrightarrow> avg_buy_price (row_update row s) = avg_buy_price s"
  by (simp add: row_update_def sell_update_def avg_buy_price_def Let_def)

lemma sell_fields_row_update:
  "Type row \<noteq> ''Buy'' \<Longrightarrow>
     quantity (row_update row s) = quantity s - Quantity row \<and>
     total_sell_revenue (row_update row s) =
       total_sell_revenue s + (Quantity row * Price row - Fee row - Tax row) \<and>
     sell_quantity (row_update row s) = sell_quantity s + Quantity row \<and>
     realized_profit (row_update row s) =
       realized_profit s + ((Price row - avg_buy_price s) * Quantity row - Fee row - Tax row) \<and>
     total_buy_cost (row_update row s) = total_buy_cost s \<and>
     buy_quantity (row_update row s) = buy_quantity s"
  by (simp add: row_update_def sell_update_def sell_profit_def avg_buy_price_def Let_def)

lemma buy_row_update:
  "Type row = ''Buy'' \<Longrightarrow>
     quantity (row_update row s) = quantity s + Quantity row \<and>
     total_sell_revenue (row_update row s) = total_sell_revenue s \<and>
     sell_quantity (row_update row s) = sell_quantity s \<and>
     realized_profit (row_update row s) = realized_profit s"
  by (simp add: row_update_def buy_update_def)

text \<open>
  C7. Appending a transaction leaves the realized profit attributed to every earlier
  row as it was: the list of profit events of the longer ledger starts with that of the
  shorter one. The state of the longer ledger is the state of the shorter one with the
  new row processed: the entries of other codes are the same, and for the row's code the
  buy cost, buy quantity, sell revenue, sell quantity and realized profit each grow by
  the new row's own term, the realized profit by the new row's event.
\<close>

theorem append_never_revises:
  "length (profit_events [] (rows @ [row])) = Suc (length rows) \<and>
   (\<forall>i < length rows. profit_events [] (rows @ [row]) ! i = profit_events [] rows ! i) \<and>
   reduce_transactions (rows @ [row]) = process_row (reduce_transactions rows) row \<and>
   (\<forall>r. let before = state_before (reduce_transactions rows) r;
            after = state_before (reduce_transactions (rows @ [row])) r;
            event = (case profit_events [] (rows @ [row]) ! length rows of
                       None \<Rightarrow> 0
                     | Some profit \<Rightarrow> profit)
        in if Stock_Code r \<noteq> Stock_Code row then after = before
           else total_buy_cost after =
                  total_buy_cost before +
                    (if Type row = ''Buy''
                     then Quantity row * Price row + Fee row + Tax row else 0) \<and>
                buy_quantity after =
                  buy_quantity before + (if Type row = ''Buy'' then Quantity row else 0) \<and>
                total_sell_revenue after =
                  total_sell_revenue before +
                    (if Type row = ''Buy''
                     then 0 else Quantity row * Price row - Fee row - Tax row) \<and>
                sell_quantity after =
                  sell_quantity before + (if Type row = ''Buy'' then 0 else Quantity row) \<and>
                realized_profit after = realized_profit before + event)"
proof -
  let ?st = "reduce_transactions rows"
  have len: "length (profit_events [] (rows @ [row])) = Suc (length rows)"
    by (simp add: length_profit_events)
  have prior: "\<forall>i < length rows.
      profit_events [] (rows @ [row]) ! i = profit_events [] rows ! i"
    by (simp add: profit_events_append nth_append length_profit_events)
  have step: "reduce_transactions (rows @ [row]) = process_row ?st row"
    by (rule reduce_transactions_snoc)
  have last: "profit_events [] (rows @ [row]) ! length rows =
      (if Type row = ''Buy'' then None
       else Some (sell_profit (row_update row (state_before ?st row)) row))"
    by (simp add: profit_events_append nth_append length_profit_events
          state_before_process_row reduce_transactions_def)
  have other: "state_before (reduce_transactions (rows @ [row])) r = state_before ?st r"
    if "Stock_Code r \<noteq> Stock_Code row" for r
    using that by (simp add: step state_before_process_row)
  have same: "state_before (reduce_transactions (rows @ [row])) r =
      row_update row (state_before ?st row)"
    if "Stock_Code r = Stock_Code row" for r
    using that by (simp add: step state_before_process_row)
  have fields:
    "total_buy_cost (row_update row (state_before ?st row)) =
       total_buy_cost (state_before ?st r) +
         (if Type row = ''Buy'' then Quantity row * Price row + Fee row + Tax row else 0) \<and>
     buy_quantity (row_update row (state_before ?st row)) =
       buy_quantity (state_before ?st r) + (if Type row = ''Buy'' then Quantity row else 0) \<and>
     total_sell_revenue (row_update row (state_before ?st row)) =
       total_sell_revenue (state_before ?st r) +
         (if Type row = ''Buy'' then 0 else Quantity row * Price row - Fee row - Tax row) \<and>
     sell_quantity (row_update row (state_before ?st row)) =
       sell_quantity (state_before ?st r) + (if Type row = ''Buy'' then 0 else Quantity row) \<and>
     realized_profit (row_update row (state_before ?st row)) =
       realized_profit (state_before ?st r) +
         (case profit_events [] (rows @ [row]) ! length rows of
            None \<Rightarrow> 0
          | Some profit \<Rightarrow> profit)"
    if code: "Stock_Code r = Stock_Code row" for r
  proof (cases "Type row = ''Buy''")
    case True
    with buy_row_update [OF True, of "state_before ?st row"]
      numeric_fields_state_before_cong [OF code, of ?st]
    show ?thesis
      by (simp add: last buy_fields_row_update buy_amount_def)
  next
    case False
    with sell_fields_row_update [OF False, of "state_before ?st row"]
      avg_buy_price_row_update [OF False, of "state_before ?st row"]
      numeric_fields_state_before_cong [OF code, of ?st]
    show ?thesis
      by (simp add: last sell_profit_def)
  qed
  have each: "let before = state_before ?st r;
          after = state_before (reduce_transactions (rows @ [row])) r;
          event = (case profit_events [] (rows @ [row]) ! length rows of
                     None \<Rightarrow> 0
                   | Some profit \<Rightarrow> profit)
      in if Stock_Code r \<noteq> Stock_Code row then after = before
         else total_buy_cost after =
                total_buy_cost before +
                  (if Type row = ''Buy''
                   then Quantity row * Price row + Fee row + Tax row else 0) \<and>
              buy_quantity after =
                buy_quantity before + (if Type row = ''Buy'' then Quantity row else 0) \<and>
              total_sell_revenue after =
                total_sell_revenue before +
                  (if Type row = ''Buy''
                   then 0 else Quantity row * Price row - Fee row - Tax row) \<and>
              sell_quantity after =
                sell_quantity before + (if Type row = ''Buy'' then 0 else Quantity row) \<and>
              realized_profit after = realized_profit before + event" for r
  proof (cases "Stock_Code r = Stock_Code row")
    case True
    show ?thesis
      unfolding Let_def same [OF True]
      using fields [OF True] True by (simp only: not_True_eq_False if_False simp_thms)
  next
    case False
    show ?thesis
      unfolding Let_def other [OF False]
      using False by simp
  qed
  from len prior step each show ?thesis
    by blast
qed

text \<open>A third row after the buy and the sell: the sell keeps its 1924.\<close>

theorem append_never_revises_witness:
  "(1 :: nat) < length
     [\<lparr>Date = ''2024-01-02'', Stock_Code = ''2330.TW'', Stock_Name = ''TSMC'',
       Type = ''Buy'', Quantity = 1000 :: rat, Price = 10, Fee = 20, Tax = 0\<rparr>,
      \<lparr>Date = ''2024-01-03'', Stock_Code = ''2330.TW'', Stock_Name = ''TSMC'',
       Type = ''Sell'', Quantity = 1000, Price = 12, Fee = 20, Tax = 36\<rparr>] \<and>
   profit_events []
     [\<lparr>Date = ''2024-01-02'', Stock_Code = ''2330.TW'', Stock_Name = ''TSMC'',
       Type = ''Buy'', Quantity = 1000, Price = 10, Fee = 20, Tax = 0\<rparr>,
      \<lparr>Date = ''2024-01-03'', Stock_Code = ''2330.TW'', Stock_Name = ''TSMC'',
       Type = ''Sell'', Quantity = 1000, Price = 12, Fee = 20, Tax = 36\<rparr>] ! 1 = Some 1924 \<and>
   profit_events []
     ([\<lparr>Date = ''2024-01-02'', Stock_Code = ''2330.TW'', Stock_Name = ''TSMC'',
        Type = ''Buy'', Quantity = 1000, Price = 10, Fee = 20, Tax = 0\<rparr>,
       \<lparr>Date = ''2024-01-03'', Stock_Code = ''2330.TW'', Stock_Name = ''TSMC'',
        Type = ''Sell'', Quantity = 1000, Price = 12, Fee = 20, Tax = 36\<rparr>] @
      [\<lparr>Date = ''2024-01-04'', Stock_Code = ''2330.TW'', Stock_Name = ''TSMC'',
        Type = ''Buy'', Quantity = 3000, Price = 20, Fee = 85.5, Tax = 0\<rparr>]) ! 1 = Some 1924"
proof -
  let ?rows = "[\<lparr>Date = ''2024-01-02'', Stock_Code = ''2330.TW'', Stock_Name = ''TSMC'',
       Type = ''Buy'', Quantity = 1000 :: rat, Price = 10, Fee = 20, Tax = 0\<rparr>,
      \<lparr>Date = ''2024-01-03'', Stock_Code = ''2330.TW'', Stock_Name = ''TSMC'',
       Type = ''Sell'', Quantity = 1000, Price = 12, Fee = 20, Tax = 36\<rparr>]"
  have event: "profit_events [] ?rows ! 1 = Some 1924"
    by code_simp
  have "\<forall>i < length ?rows.
      profit_events []
        (?rows @ [\<lparr>Date = ''2024-01-04'', Stock_Code = ''2330.TW'', Stock_Name = ''TSMC'',
                   Type = ''Buy'', Quantity = 3000, Price = 20, Fee = 85.5, Tax = 0\<rparr>]) ! i =
      profit_events [] ?rows ! i"
    using append_never_revises
      [of ?rows "\<lparr>Date = ''2024-01-04'', Stock_Code = ''2330.TW'', Stock_Name = ''TSMC'',
                   Type = ''Buy'', Quantity = 3000, Price = 20, Fee = 85.5, Tax = 0\<rparr>"]
    by blast
  then have "profit_events []
        (?rows @ [\<lparr>Date = ''2024-01-04'', Stock_Code = ''2330.TW'', Stock_Name = ''TSMC'',
                   Type = ''Buy'', Quantity = 3000, Price = 20, Fee = 85.5, Tax = 0\<rparr>]) ! 1 =
      profit_events [] ?rows ! 1"
    by simp
  with event show ?thesis
    by simp
qed

text \<open>
  C9. A row whose type is anything but the string \<^verbatim>\<open>Buy\<close> is processed as a Sell: the
  dictionary after it is the one a row of type \<^verbatim>\<open>Sell\<close> with the same fields gives; its
  quantity leaves the quantity held, the sell revenue and the sell quantity grow, and a
  realized profit is computed for it. No row is skipped: the row's code has an entry
  afterwards, and the row has a profit event.
\<close>

theorem non_buy_is_sell:
  assumes other: "Type row \<noteq> ''Buy''"
  shows
    "process_row st row = process_row st (row\<lparr>Type := ''Sell''\<rparr>) \<and>
     (let before = state_before st row;
          after = state_before (process_row st row) row
      in map_of (process_row st row) (Stock_Code row) = Some after \<and>
         quantity after = quantity before - Quantity row \<and>
         total_sell_revenue after =
           total_sell_revenue before + (Quantity row * Price row - Fee row - Tax row) \<and>
         sell_quantity after = sell_quantity before + Quantity row \<and>
         realized_profit after =
           realized_profit before +
             ((Price row - avg_buy_price before) * Quantity row - Fee row - Tax row) \<and>
         total_buy_cost after = total_buy_cost before \<and>
         buy_quantity after = buy_quantity before) \<and>
     length (profit_events st (rows @ [row])) = length (rows @ [row]) \<and>
     profit_events st (rows @ [row]) ! length rows \<noteq> None"
proof -
  have "row_update row = row_update (row\<lparr>Type := ''Sell''\<rparr>)"
    using other
    by (intro ext) (simp add: row_update_def sell_update_def sell_profit_def Let_def)
  then have same: "process_row st row = process_row st (row\<lparr>Type := ''Sell''\<rparr>)"
    by (simp add: process_row_def Let_def new_state_def)
  have after: "state_before (process_row st row) row = row_update row (state_before st row)"
    by (simp add: state_before_process_row)
  have stored: "map_of (process_row st row) (Stock_Code row) =
      Some (state_before (process_row st row) row)"
    by (simp add: after) (simp add: map_of_process_row)
  have event: "profit_events st (rows @ [row]) ! length rows \<noteq> None"
    using other by (simp add: profit_events_append nth_append length_profit_events)
  have len: "length (profit_events st (rows @ [row])) = length (rows @ [row])"
    by (rule length_profit_events)
  have fields: "let before = state_before st row;
          after = state_before (process_row st row) row
      in map_of (process_row st row) (Stock_Code row) = Some after \<and>
         quantity after = quantity before - Quantity row \<and>
         total_sell_revenue after =
           total_sell_revenue before + (Quantity row * Price row - Fee row - Tax row) \<and>
         sell_quantity after = sell_quantity before + Quantity row \<and>
         realized_profit after =
           realized_profit before +
             ((Price row - avg_buy_price before) * Quantity row - Fee row - Tax row) \<and>
         total_buy_cost after = total_buy_cost before \<and>
         buy_quantity after = buy_quantity before"
    unfolding Let_def
    using stored sell_fields_row_update [OF other, of "state_before st row"]
    by (simp add: after)
  from same fields len event show ?thesis
    by blast
qed

text \<open>A row of type \<^verbatim>\<open>sell\<close>, in lower case, on the empty dictionary.\<close>

theorem non_buy_is_sell_witness:
  "Type \<lparr>Date = ''2024-01-03'', Stock_Code = ''2330.TW'', Stock_Name = ''TSMC'',
         Type = ''sell'', Quantity = 1000 :: rat, Price = 12, Fee = 20, Tax = 36\<rparr> \<noteq> ''Buy'' \<and>
   map_of (process_row []
       \<lparr>Date = ''2024-01-03'', Stock_Code = ''2330.TW'', Stock_Name = ''TSMC'',
        Type = ''sell'', Quantity = 1000, Price = 12, Fee = 20, Tax = 36\<rparr>) ''2330.TW'' =
     Some \<lparr>name = ''TSMC'', quantity = - 1000, total_buy_cost = 0, total_sell_revenue = 11944,
           total_fee_tax = 56, buy_quantity = 0, sell_quantity = 1000,
           realized_profit = 11944, is_otc = False\<rparr> \<and>
   process_row []
       \<lparr>Date = ''2024-01-03'', Stock_Code = ''2330.TW'', Stock_Name = ''TSMC'',
        Type = ''sell'', Quantity = 1000, Price = 12, Fee = 20, Tax = 36\<rparr> =
   process_row []
       \<lparr>Date = ''2024-01-03'', Stock_Code = ''2330.TW'', Stock_Name = ''TSMC'',
        Type = ''Sell'', Quantity = 1000, Price = 12, Fee = 20, Tax = 36\<rparr>"
proof -
  let ?row = "\<lparr>Date = ''2024-01-03'', Stock_Code = ''2330.TW'', Stock_Name = ''TSMC'',
        Type = ''sell'', Quantity = 1000 :: rat, Price = 12, Fee = 20, Tax = 36\<rparr>"
  have other: "Type ?row \<noteq> ''Buy''"
    by simp
  have state: "state_before (process_row [] ?row) ?row =
      \<lparr>name = ''TSMC'', quantity = - 1000, total_buy_cost = 0, total_sell_revenue = 11944,
       total_fee_tax = 56, buy_quantity = 0, sell_quantity = 1000,
       realized_profit = 11944, is_otc = False\<rparr>"
    by code_simp
  from non_buy_is_sell [OF other, of "[]" "[]"]
  have same: "process_row [] ?row = process_row [] (?row\<lparr>Type := ''Sell''\<rparr>)"
    and stored: "map_of (process_row [] ?row) (Stock_Code ?row) =
      Some (state_before (process_row [] ?row) ?row)"
    unfolding Let_def by blast+
  from stored state have booked: "map_of (process_row [] ?row) ''2330.TW'' =
      Some \<lparr>name = ''TSMC'', quantity = - 1000, total_buy_cost = 0,
            total_sell_revenue = 11944, total_fee_tax = 56, buy_quantity = 0,
            sell_quantity = 1000, realized_profit = 11944, is_otc = False\<rparr>"
    by simp
  from same have same': "process_row [] ?row =
      process_row []
        \<lparr>Date = ''2024-01-03'', Stock_Code = ''2330.TW'', Stock_Name = ''TSMC'',
         Type = ''Sell'', Quantity = 1000, Price = 12, Fee = 20, Tax = 36\<rparr>"
    by simp
  from other booked same' show ?thesis
    by blast
qed

section \<open>The resolver\<close>

lemma fetch_stock_info_miss:
  assumes "\<forall>c. cache r full_code = Some c \<longrightarrow> 1800 \<le> current_time - timestamp c"
  shows "fetch_stock_info env current_time r full_code =
     (let result =
            \<lparr>price = py_round
               (if sheet_price (google_sheets_prices r) full_code = Number 0
                then yahoo_price env full_code
                else sheet_price (google_sheets_prices r) full_code),
             info_name =
               (case load_stock_names env
                       (split_dot_first full_code,
                        if endswith full_code ''.TWO'' then ''TWO'' else ''TWSE'') of
                  None \<Rightarrow> unknown_name
                | Some n \<Rightarrow> n)\<rparr>
      in (result,
          r\<lparr>cache := (cache r)(full_code \<mapsto> \<lparr>timestamp = current_time, data = result\<rparr>)\<rparr>))"
proof (cases "cache r full_code")
  case None
  then show ?thesis
    by (simp add: fetch_stock_info_def Let_def)
next
  case (Some c)
  with assms have "\<not> current_time - timestamp c < 1800"
    by (simp add: not_less)
  with Some show ?thesis
    by (simp add: fetch_stock_info_def Let_def)
qed

lemma fetch_stock_info_hit:
  assumes "cache r full_code = Some c" "current_time - timestamp c < 1800"
  shows "fetch_stock_info env current_time r full_code = (data c, r)"
  using assms by (simp add: fetch_stock_info_def Let_def)

lemma sheet_price_map_of:
  "sheet_price prices full_code =
     (case map_of prices full_code of None \<Rightarrow> Number 0 | Some v \<Rightarrow> v)"
  by (cases prices) (simp_all add: sheet_price_def)

lemma resolved_price_tiers:
  "(if sheet_price prices full_code = Number 0 then yahoo_price env full_code
    else sheet_price prices full_code) =
   (case map_of prices full_code of
      None \<Rightarrow> (case yf_last_close env full_code of
                 Inl e \<Rightarrow> Number 0 | Inr None \<Rightarrow> Number 0 | Inr (Some close) \<Rightarrow> close)
    | Some v \<Rightarrow>
        if v = Number 0
        then (case yf_last_close env full_code of
                Inl e \<Rightarrow> Number 0 | Inr None \<Rightarrow> Number 0 | Inr (Some close) \<Rightarrow> close)
        else v)"
  by (simp add: sheet_price_map_of yahoo_price_def split: option.splits)

lemma round_half_even_nearest:
  "\<bar>of_int (round_half_even y) - y\<bar> \<le> 1 / 2 \<and>
   (\<bar>of_int (round_half_even y) - y\<bar> = 1 / 2 \<longrightarrow> even (round_half_even y))"
proof -
  let ?f = "\<lfloor>y\<rfloor>"
  let ?d = "y - of_int ?f"
  have lo: "0 \<le> ?d" and hi: "?d < 1"
    by linarith+
  consider (below) "?d < 1 / 2" | (above) "1 / 2 < ?d" | (tie) "?d = 1 / 2"
    by linarith
  then show ?thesis
  proof cases
    case below
    then have "round_half_even y = ?f"
      by (simp add: round_half_even_def Let_def)
    with below lo show ?thesis
      by (simp add: abs_if; linarith?)
  next
    case above
    then have "round_half_even y = ?f + 1"
      by (simp add: round_half_even_def Let_def)
    with above hi show ?thesis
      by (simp add: abs_if; linarith?)
  next
    case tie
    then have r: "round_half_even y = (if even ?f then ?f else ?f + 1)"
      by (simp add: round_half_even_def Let_def)
    have "\<bar>of_int (round_half_even y) - y\<bar> \<le> 1 / 2"
      using tie by (simp add: r abs_if; linarith?)
    moreover have "even (round_half_even y)"
      by (simp add: r)
    ultimately show ?thesis
      by simp
  qed
qed

lemma py_round2_nearest:
  "\<exists>k::int. py_round2 x = of_int k / 100 \<and>
     \<bar>of_int k / 100 - x\<bar> \<le> 1 / 200 \<and>
     (\<bar>of_int k / 100 - x\<bar> = 1 / 200 \<longrightarrow> even k)"
proof -
  let ?k = "round_half_even (x * 100)"
  have eq: "\<bar>of_int ?k / 100 - x\<bar> = \<bar>of_int ?k - x * 100\<bar> / 100"
    by (simp add: abs_if field_simps)
  from round_half_even_nearest [of "x * 100"] have
    "\<bar>of_int ?k / 100 - x\<bar> \<le> 1 / 200 \<and>
     (\<bar>of_int ?k / 100 - x\<bar> = 1 / 200 \<longrightarrow> even ?k)"
    unfolding eq by (simp add: field_simps)
  then show ?thesis
    unfolding py_round2_def by blast
qed

lemma fetch_miss_price:
  assumes "\<forall>c. cache r full_code = Some c \<longrightarrow> 1800 \<le> current_time - timestamp c"
  shows "price (fst (fetch_stock_info env current_time r full_code)) =
     py_round
       (case map_of (google_sheets_prices r) full_code of
          None \<Rightarrow> (case yf_last_close env full_code of
                     Inl e \<Rightarrow> Number 0 | Inr None \<Rightarrow> Number 0 | Inr (Some close) \<Rightarrow> close)
        | Some v \<Rightarrow>
            if v = Number 0
            then (case yf_last_close env full_code of
                    Inl e \<Rightarrow> Number 0 | Inr None \<Rightarrow> Number 0 | Inr (Some close) \<Rightarrow> close)
            else v)"
  using resolved_price_tiers [of "google_sheets_prices r" full_code env]
  by (simp add: fetch_stock_info_miss [OF assms] Let_def)

lemma fetch_miss_cache:
  assumes "\<forall>c. cache r full_code = Some c \<longrightarrow> 1800 \<le> current_time - timestamp c"
  shows "cache (snd (fetch_stock_info env current_time r full_code)) full_code =
       Some \<lparr>timestamp = current_time,
             data = fst (fetch_stock_info env current_time r full_code)\<rparr> \<and>
     (\<forall>c. c \<noteq> full_code \<longrightarrow>
        cache (snd (fetch_stock_info env current_time r full_code)) c = cache r c) \<and>
     google_sheets_prices (snd (fetch_stock_info env current_time r full_code)) =
       google_sheets_prices r"
  by (simp add: fetch_stock_info_miss [OF assms] Let_def)

lemma py_round_cases:
  "case resolved of
     Number x \<Rightarrow>
       \<exists>k::int. py_round resolved = Number (of_int k / 100) \<and>
         \<bar>of_int k / 100 - x\<bar> \<le> 1 / 200 \<and>
         (\<bar>of_int k / 100 - x\<bar> = 1 / 200 \<longrightarrow> even k)
   | other \<Rightarrow> py_round resolved = other"
  using py_round2_nearest by (cases resolved) simp_all

text \<open>
  C3. When the cache has no entry for the code that is younger than 30 minutes, the
  price is the snapshot's value for the code if there is one and it is not 0; otherwise
  it is the last close of the live quote, and 0 when the request fails or returns
  nothing. When that price is a number, the result carries the multiple of 1/100 that
  is nearest to it, the even one of the two when it lies half way; an infinity or
  \<^verbatim>\<open>nan\<close> is carried as it is. The result is stored in the cache with the current time;
  no other cache entry and no snapshot value changes. Every outcome of the provider, an
  exception included, gives a result.
\<close>

theorem fetch_resolution_order:
  assumes miss: "\<forall>c. cache r full_code = Some c \<longrightarrow> 1800 \<le> current_time - timestamp c"
  shows
    "let fallback = (case yf_last_close env full_code of
                       Inl e \<Rightarrow> Number 0 | Inr None \<Rightarrow> Number 0 | Inr (Some close) \<Rightarrow> close);
         resolved = (case map_of (google_sheets_prices r) full_code of
                       None \<Rightarrow> fallback
                     | Some v \<Rightarrow> if v = Number 0 then fallback else v);
         (info, r1) = fetch_stock_info env current_time r full_code
     in (case resolved of
           Number x \<Rightarrow>
             \<exists>k::int. price info = Number (of_int k / 100) \<and>
               \<bar>of_int k / 100 - x\<bar> \<le> 1 / 200 \<and>
               (\<bar>of_int k / 100 - x\<bar> = 1 / 200 \<longrightarrow> even k)
         | other \<Rightarrow> price info = other) \<and>
        cache r1 full_code = Some \<lparr>timestamp = current_time, data = info\<rparr> \<and>
        (\<forall>c. c \<noteq> full_code \<longrightarrow> cache r1 c = cache r c) \<and>
        google_sheets_prices r1 = google_sheets_prices r"
proof -
  let ?resolved = "case map_of (google_sheets_prices r) full_code of
      None \<Rightarrow> (case yf_last_close env full_code of
                 Inl e \<Rightarrow> Number 0 | Inr None \<Rightarrow> Number 0 | Inr (Some close) \<Rightarrow> close)
    | Some v \<Rightarrow>
        if v = Number 0
        then (case yf_last_close env full_code of
                Inl e \<Rightarrow> Number 0 | Inr None \<Rightarrow> Number 0 | Inr (Some close) \<Rightarrow> close)
        else v"
  let ?run = "fetch_stock_info env current_time r full_code"
  have rounded: "case ?resolved of
      Number x \<Rightarrow>
        \<exists>k::int. price (fst ?run) = Number (of_int k / 100) \<and>
          \<bar>of_int k / 100 - x\<bar> \<le> 1 / 200 \<and>
          (\<bar>of_int k / 100 - x\<bar> = 1 / 200 \<longrightarrow> even k)
    | other \<Rightarrow> price (fst ?run) = other"
    unfolding fetch_miss_price [OF miss] by (rule py_round_cases)
  from rounded fetch_miss_cache [OF miss, of env] show ?thesis
    unfolding Let_def split_beta by blast
qed

text \<open>
  Four runs on an empty cache: a snapshot value of 0 with a live close of 12.346, which
  gives 12.35 and is cached; a snapshot value of 512.5; a snapshot value of 0 with a
  failing provider, which gives 0; and a snapshot value of 0 with a live close that is
  \<^verbatim>\<open>nan\<close>.
\<close>

theorem fetch_resolution_order_witness:
  "cache (empty_resolver\<lparr>google_sheets_prices :=
            [(''2330.TW'', Number 0), (''6488.TWO'', Number 512.5)]\<rparr>) ''2330.TW'' = None \<and>
   cache (empty_resolver\<lparr>google_sheets_prices :=
            [(''2330.TW'', Number 0), (''6488.TWO'', Number 512.5)]\<rparr>) ''6488.TWO'' = None \<and>
   price (fst (fetch_stock_info (closing_at (Number 12.346)) 100
                 (empty_resolver\<lparr>google_sheets_prices :=
                    [(''2330.TW'', Number 0), (''6488.TWO'', Number 512.5)]\<rparr>)
                 ''2330.TW'')) = Number 12.35 \<and>
   price (fst (fetch_stock_info offline 100
                 (empty_resolver\<lparr>google_sheets_prices :=
                    [(''2330.TW'', Number 0), (''6488.TWO'', Number 512.5)]\<rparr>)
                 ''6488.TWO'')) = Number 512.5 \<and>
   price (fst (fetch_stock_info offline 100
                 (empty_resolver\<lparr>google_sheets_prices :=
                    [(''2330.TW'', Number 0), (''6488.TWO'', Number 512.5)]\<rparr>)
                 ''2330.TW'')) = Number 0 \<and>
   price (fst (fetch_stock_info (closing_at NaN) 100
                 (empty_resolver\<lparr>google_sheets_prices :=
                    [(''2330.TW'', Number 0), (''6488.TWO'', Number 512.5)]\<rparr>)
                 ''2330.TW'')) = NaN \<and>
   cache (snd (fetch_stock_info (closing_at (Number 12.346)) 100
                 (empty_resolver\<lparr>google_sheets_prices :=
                    [(''2330.TW'', Number 0), (''6488.TWO'', Number 512.5)]\<rparr>)
                 ''2330.TW'')) ''2330.TW'' =
     Some \<lparr>timestamp = 100,
           data = \<lparr>price = Number 12.35, info_name = unknown_name\<rparr>\<rparr>"
proof -
  let ?r = "empty_resolver\<lparr>google_sheets_prices :=
      [(''2330.TW'', Number 0), (''6488.TWO'', Number 512.5)]\<rparr>"
  have none: "\<forall>c. cache ?r ''2330.TW'' = Some c \<longrightarrow> 1800 \<le> 100 - timestamp c"
    "cache ?r ''2330.TW'' = None" "cache ?r ''6488.TWO'' = None"
    by (simp_all add: empty_resolver_def)
  have live: "fst (fetch_stock_info (closing_at (Number 12.346)) 100 ?r ''2330.TW'') =
      \<lparr>price = Number 12.35, info_name = unknown_name\<rparr>"
    by code_simp
  have sheet: "price (fst (fetch_stock_info offline 100 ?r ''6488.TWO'')) = Number 512.5"
    by code_simp
  have failed: "price (fst (fetch_stock_info offline 100 ?r ''2330.TW'')) = Number 0"
    by code_simp
  have nan: "price (fst (fetch_stock_info (closing_at NaN) 100 ?r ''2330.TW'')) = NaN"
    by code_simp
  from fetch_resolution_order [OF none(1), of "closing_at (Number 12.346)"]
  have "cache (snd (fetch_stock_info (closing_at (Number 12.346)) 100 ?r ''2330.TW''))
      ''2330.TW'' =
      Some \<lparr>timestamp = 100,
            data = fst (fetch_stock_info (closing_at (Number 12.346)) 100 ?r ''2330.TW'')\<rparr>"
    unfolding Let_def split_beta by blast
  with none(2,3) live sheet failed nan show ?thesis
    by simp
qed

text \<open>
  C6. After a price was resolved and cached at time \<open>T\<close>, a request for the same code at
  a time less than 30 minutes after \<open>T\<close> returns the cached result and leaves the resolver
  as it is, whatever the snapshot and the providers then hold; a request at 30 minutes
  or later resolves the price anew through the snapshot and the live quote, and stores
  it with the new time.
\<close>

theorem cache_thirty_minutes:
  assumes miss: "\<forall>c. cache r0 full_code = Some c \<longrightarrow> 1800 \<le> T - timestamp c"
  shows
    "let (info, r1) = fetch_stock_info env0 T r0 full_code;
         r = r1\<lparr>google_sheets_prices := prices\<rparr>;
         fallback = (case yf_last_close env full_code of
                       Inl e \<Rightarrow> Number 0 | Inr None \<Rightarrow> Number 0 | Inr (Some close) \<Rightarrow> close);
         resolved = (case map_of prices full_code of
                       None \<Rightarrow> fallback
                     | Some v \<Rightarrow> if v = Number 0 then fallback else v);
         (info2, r2) = fetch_stock_info env T2 r full_code
     in (T2 - T < 1800 \<longrightarrow> info2 = info \<and> r2 = r) \<and>
        (1800 \<le> T2 - T \<longrightarrow>
           price info2 = py_round resolved \<and>
           cache r2 full_code = Some \<lparr>timestamp = T2, data = info2\<rparr>)"
proof -
  obtain info r1 where first: "fetch_stock_info env0 T r0 full_code = (info, r1)"
    by (cases "fetch_stock_info env0 T r0 full_code")
  let ?r = "r1\<lparr>google_sheets_prices := prices\<rparr>"
  from first fetch_miss_cache [OF miss, of env0]
  have entry1: "cache r1 full_code = Some \<lparr>timestamp = T, data = info\<rparr>"
    by simp
  then have entry: "cache ?r full_code = Some \<lparr>timestamp = T, data = info\<rparr>"
    by simp
  have hit: "fetch_stock_info env T2 ?r full_code = (info, ?r)" if "T2 - T < 1800"
    using fetch_stock_info_hit [OF entry, of T2 env] that by simp
  have expired: "\<forall>c. cache ?r full_code = Some c \<longrightarrow> 1800 \<le> T2 - timestamp c"
    if "1800 \<le> T2 - T"
    using that by (simp add: entry1)
  have again: "price (fst (fetch_stock_info env T2 ?r full_code)) =
        py_round (case map_of prices full_code of
                     None \<Rightarrow> (case yf_last_close env full_code of
                                Inl e \<Rightarrow> Number 0 | Inr None \<Rightarrow> Number 0
                              | Inr (Some close) \<Rightarrow> close)
                   | Some v \<Rightarrow>
                       if v = Number 0
                       then (case yf_last_close env full_code of
                               Inl e \<Rightarrow> Number 0 | Inr None \<Rightarrow> Number 0
                             | Inr (Some close) \<Rightarrow> close)
                       else v) \<and>
      cache (snd (fetch_stock_info env T2 ?r full_code)) full_code =
        Some \<lparr>timestamp = T2, data = fst (fetch_stock_info env T2 ?r full_code)\<rparr>"
    if late: "1800 \<le> T2 - T"
    using fetch_miss_price [OF expired [OF late], of env]
          fetch_miss_cache [OF expired [OF late], of env]
    by simp
  show ?thesis
    using hit again by (simp add: first Let_def split_beta)
qed

text \<open>
  A price of 512.5 cached at time 1000, the snapshot then changed to 600: 512.5 again at
  time 2740, and 600 at time 2800.
\<close>

theorem cache_thirty_minutes_witness:
  "cache (empty_resolver\<lparr>google_sheets_prices := [(''2330.TW'', Number 512.5)]\<rparr>)
     ''2330.TW'' = None \<and>
   (2740 :: rat) - 1000 < 1800 \<and>
   price (fst (fetch_stock_info offline 2740
     ((snd (fetch_stock_info offline 1000
              (empty_resolver\<lparr>google_sheets_prices := [(''2330.TW'', Number 512.5)]\<rparr>)
              ''2330.TW''))
        \<lparr>google_sheets_prices := [(''2330.TW'', Number 600)]\<rparr>) ''2330.TW'')) = Number 512.5 \<and>
   (1800 :: rat) \<le> 2800 - 1000 \<and>
   price (fst (fetch_stock_info offline 2800
     ((snd (fetch_stock_info offline 1000
              (empty_resolver\<lparr>google_sheets_prices := [(''2330.TW'', Number 512.5)]\<rparr>)
              ''2330.TW''))
        \<lparr>google_sheets_prices := [(''2330.TW'', Number 600)]\<rparr>) ''2330.TW'')) = Number 600"
proof -
  let ?r0 = "empty_resolver\<lparr>google_sheets_prices := [(''2330.TW'', Number 512.5)]\<rparr>"
  have first: "price (fst (fetch_stock_info offline 1000 ?r0 ''2330.TW'')) = Number 512.5"
    by code_simp
  have empty: "cache ?r0 ''2330.TW'' = None"
    by (simp add: empty_resolver_def)
  have round: "py_round (Number 600) = Number 600"
    by code_simp
  show ?thesis
    using first empty round
      cache_thirty_minutes [where ?r0.0 = ?r0 and full_code = "''2330.TW''" and T = 1000
        and ?env0.0 = offline and prices = "[(''2330.TW'', Number 600)]" and env = offline
        and ?T2.0 = 2740]
      cache_thirty_minutes [where ?r0.0 = ?r0 and full_code = "''2330.TW''" and T = 1000
        and ?env0.0 = offline and prices = "[(''2330.TW'', Number 600)]" and env = offline
        and ?T2.0 = 2800]
    by (simp add: Let_def split_beta)
qed

section \<open>Validation in the entry form\<close>

lemma py_mod_lot: "py_mod q 1000 = 0 \<longleftrightarrow> (\<exists>k::int. q = of_int k * 1000)"
proof
  assume "py_mod q 1000 = 0"
  then have "q = of_int \<lfloor>q / 1000\<rfloor> * 1000"
    by (simp add: py_mod_def)
  then show "\<exists>k::int. q = of_int k * 1000" ..
next
  assume "\<exists>k::int. q = of_int k * 1000"
  then obtain k :: int where "q = of_int k * 1000" ..
  then show "py_mod q 1000 = 0"
    by (simp add: py_mod_def)
qed

lemma py_lt_imp_le: "py_lt a b \<Longrightarrow> py_le a b"
  by (cases a; cases b) simp_all

lemma entry_fee_at_least_20: "py_le (Number 20) (entry_fee p q)"
  by (simp add: entry_fee_def py_max_def py_lt_imp_le)

lemma validated_quantity:
  assumes "\<not> py_le v (Number 0)" "float_mod v 1000 = Number 0"
  shows "\<exists>q. v = Number q \<and> 0 < q \<and> py_mod q 1000 = 0"
  using assms by (cases v) simp_all

lemma new_transaction_checks:
  assumes "new_transaction float strip default_date form = Inr t"
  shows "\<exists>quantity_text price_text.
      form_quantity form = Some quantity_text \<and> quantity_text \<noteq> [] \<and>
      float quantity_text = Inr (Quantity t) \<and>
      \<not> py_le (Quantity t) (Number 0) \<and> float_mod (Quantity t) 1000 = Number 0 \<and>
      form_price form = Some price_text \<and> price_text \<noteq> [] \<and>
      float price_text = Inr (Price t) \<and> \<not> py_le (Price t) (Number 0) \<and>
      strip (form_get (form_code form) []) \<noteq> [] \<and>
      Type t = form_get (form_type form) ''Buy'' \<and>
      Fee t = entry_fee (Price t) (Quantity t) \<and>
      Tax t = entry_tax (Type t) (Price t) (Quantity t)"
  using assms
  by (auto simp: new_transaction_def Let_def nonempty_def
           split: if_splits option.splits sum.splits)

lemma new_transaction_Inr:
  assumes "new_transaction float strip default_date form = Inr t"
  shows "\<exists>quantity_text price_text q.
      form_quantity form = Some quantity_text \<and> quantity_text \<noteq> [] \<and>
      float quantity_text = Inr (Number q) \<and> Quantity t = Number q \<and>
      0 < q \<and> py_mod q 1000 = 0 \<and>
      form_price form = Some price_text \<and> price_text \<noteq> [] \<and>
      float price_text = Inr (Price t) \<and> \<not> py_le (Price t) (Number 0) \<and>
      strip (form_get (form_code form) []) \<noteq> [] \<and>
      Type t = form_get (form_type form) ''Buy'' \<and>
      Fee t = entry_fee (Price t) (Quantity t) \<and>
      Tax t = entry_tax (Type t) (Price t) (Quantity t)"
proof -
  from new_transaction_checks [OF assms] obtain quantity_text price_text where
    c: "form_quantity form = Some quantity_text" "quantity_text \<noteq> []"
      "float quantity_text = Inr (Quantity t)"
      "\<not> py_le (Quantity t) (Number 0)" "float_mod (Quantity t) 1000 = Number 0"
      "form_price form = Some price_text" "price_text \<noteq> []"
      "float price_text = Inr (Price t)" "\<not> py_le (Price t) (Number 0)"
      "strip (form_get (form_code form) []) \<noteq> []"
      "Type t = form_get (form_type form) ''Buy''"
      "Fee t = entry_fee (Price t) (Quantity t)"
      "Tax t = entry_tax (Type t) (Price t) (Quantity t)"
    by blast
  from validated_quantity [OF c(4,5)] obtain q where
    q: "Quantity t = Number q" "0 < q" "py_mod q 1000 = 0"
    by blast
  from c(3) q(1) have "float quantity_text = Inr (Number q)"
    by simp
  with c q show ?thesis
    by blast
qed

lemma add_transaction_cases:
  "add_transaction float strip default_date store form ledger =
     (case new_transaction float strip default_date form of
        Inl e \<Rightarrow> (Some e, ledger)
      | Inr t \<Rightarrow>
          if connected store \<and> append_ok store
          then (map_option handler (refresh_error store), ledger @ [t])
          else (Some (if connected store then Append_Failed else No_Connection), ledger))"
  by (simp add: add_transaction_def split: sum.splits option.splits)

lemma add_transaction_appended:
  assumes "snd (add_transaction float strip default_date store form ledger) \<noteq> ledger"
  shows "\<exists>t. new_transaction float strip default_date form = Inr t \<and>
      add_transaction float strip default_date store form ledger =
        (map_option handler (refresh_error store), ledger @ [t])"
  using assms by (auto simp: add_transaction_cases split: sum.splits if_splits)

lemma add_transaction_rejected:
  assumes "\<forall>t. new_transaction float strip default_date form \<noteq> Inr t"
  shows "\<exists>e. add_transaction float strip default_date store form ledger = (Some e, ledger)"
  using assms by (auto simp: add_transaction_cases split: sum.splits)

lemma entry_defects_rejected:
  assumes "form_quantity form = None \<or> form_quantity form = Some [] \<or>
      (\<exists>text e. form_quantity form = Some text \<and> float text = Inl e) \<or>
      (\<exists>text v. form_quantity form = Some text \<and> float text = Inr v \<and>
         (py_le v (Number 0) \<or> (\<forall>k::int. v \<noteq> Number (of_int k * 1000)))) \<or>
      form_price form = None \<or> form_price form = Some [] \<or>
      (\<exists>text e. form_price form = Some text \<and> float text = Inl e) \<or>
      (\<exists>text p. form_price form = Some text \<and> float text = Inr p \<and> py_le p (Number 0))"
  shows "\<exists>e. add_transaction float strip default_date store form ledger = (Some e, ledger)"
proof (rule add_transaction_rejected, intro allI notI)
  fix t
  assume "new_transaction float strip default_date form = Inr t"
  from new_transaction_Inr [OF this] obtain quantity_text price_text q where
    ok: "form_quantity form = Some quantity_text" "quantity_text \<noteq> []"
      "float quantity_text = Inr (Number q)" "0 < q" "py_mod q 1000 = 0"
      "form_price form = Some price_text" "price_text \<noteq> []"
      "float price_text = Inr (Price t)" "\<not> py_le (Price t) (Number 0)"
    by blast
  from ok(5) obtain k :: int where "q = of_int k * 1000"
    by (auto simp: py_mod_lot)
  with assms ok show False
    by auto
qed


text \<open>
  C10. A row appended through the entry form, with validated quantity \<open>q\<close> and price
  \<open>p\<close>, has the fee \<open>max 20 (p * q * 0.001425)\<close> and the tax \<open>p * q * 0.003\<close> when
  its type is \<^verbatim>\<open>Sell\<close>, and 0 otherwise, as Python computes them on floats: its fee is
  at least 20, and a Buy has tax 0. When the price is a number it is positive, the fee
  is the number \<open>max 20 (q * p * 0.001425)\<close> and the tax of a Sell the number
  \<open>q * p * 0.003\<close>.
\<close>

theorem entry_fee_and_tax:
  assumes "add_transaction float strip default_date store form ledger = (err, ledger1)"
    and "ledger1 \<noteq> ledger"
  shows "\<exists>t. ledger1 = ledger @ [t] \<and>
      new_transaction float strip default_date form = Inr t \<and>
      Type t = form_get (form_type form) ''Buy'' \<and>
      (\<exists>q. Quantity t = Number q \<and> 0 < q) \<and>
      \<not> py_le (Price t) (Number 0) \<and>
      Fee t = py_max (Number 20) (py_mul (py_mul (Price t) (Quantity t)) (Number 0.001425)) \<and>
      Tax t = (if Type t = ''Sell''
               then py_mul (py_mul (Price t) (Quantity t)) (Number 0.003)
               else Number 0) \<and>
      py_le (Number 20) (Fee t) \<and>
      (Type t = ''Buy'' \<longrightarrow> Tax t = Number 0) \<and>
      (\<forall>p. Price t = Number p \<longrightarrow>
         0 < p \<and>
         (\<exists>q. Quantity t = Number q \<and> 0 < q \<and>
            Fee t = Number (max 20 (q * p * 0.001425)) \<and>
            Tax t = Number (if Type t = ''Sell'' then q * p * 0.003 else 0)))"
proof -
  from assms have "snd (add_transaction float strip default_date store form ledger) \<noteq> ledger"
    by simp
  from add_transaction_appended [OF this] assms(1) obtain t where
    t: "new_transaction float strip default_date form = Inr t" "ledger1 = ledger @ [t]"
    by auto
  from new_transaction_Inr [OF t(1)] obtain q where
    row: "Quantity t = Number q" "0 < q" "\<not> py_le (Price t) (Number 0)"
      "Type t = form_get (form_type form) ''Buy''"
      "Fee t = entry_fee (Price t) (Quantity t)"
      "Tax t = entry_tax (Type t) (Price t) (Quantity t)"
    by blast
  have fee: "Fee t =
      py_max (Number 20) (py_mul (py_mul (Price t) (Quantity t)) (Number 0.001425))"
    by (simp add: row(5) entry_fee_def)
  have tax: "Tax t = (if Type t = ''Sell''
      then py_mul (py_mul (Price t) (Quantity t)) (Number 0.003) else Number 0)"
    by (simp add: row(6) entry_tax_def)
  have least: "py_le (Number 20) (Fee t)"
    by (simp add: row(5) entry_fee_at_least_20)
  have buy: "Type t = ''Buy'' \<longrightarrow> Tax t = Number 0"
    by (simp add: tax)
  have numbers: "0 < p \<and>
      (\<exists>q. Quantity t = Number q \<and> 0 < q \<and>
         Fee t = Number (max 20 (q * p * 0.001425)) \<and>
         Tax t = Number (if Type t = ''Sell'' then q * p * 0.003 else 0))"
    if p: "Price t = Number p" for p
  proof -
    from row(3) p have "0 < p"
      by simp
    moreover have "Fee t = Number (max 20 (q * p * 0.001425))"
      by (simp add: fee p row(1) py_max_def max_def mult.commute)
    moreover have "Tax t = Number (if Type t = ''Sell'' then q * p * 0.003 else 0)"
      by (simp add: tax p row(1) mult.commute)
    ultimately show ?thesis
      using row(1,2) by blast
  qed
  from t row(1,2,3,4) fee tax least buy numbers show ?thesis
    by blast
qed

text \<open>The sell of 1000 shares at 10.5: fee 20, tax 31.5.\<close>

theorem entry_fee_and_tax_witness:
  "add_transaction sample_float ascii_strip ''2024-01-02''
     \<lparr>connected = True, append_ok = True, refresh_error = None\<rparr>
     \<lparr>form_date = None, form_code = Some '' 2330 '', form_name = Some ''TSMC'',
      form_market = None, form_type = Some ''Sell'', form_quantity = Some ''1000'',
      form_price = Some ''10.5''\<rparr> [] =
     (None,
      [\<lparr>Date = ''2024-01-02'', Stock_Code = ''2330.TW'', Stock_Name = ''TSMC'',
        Type = ''Sell'', Quantity = Number 1000, Price = Number 10.5, Fee = Number 20,
        Tax = Number 31.5\<rparr>]) \<and>
   [\<lparr>Date = ''2024-01-02'', Stock_Code = ''2330.TW'', Stock_Name = ''TSMC'',
     Type = ''Sell'', Quantity = Number 1000, Price = Number 10.5, Fee = Number 20,
     Tax = Number 31.5\<rparr>] \<noteq> [] \<and>
   py_le (Number 20)
     (Fee \<lparr>Date = ''2024-01-02'', Stock_Code = ''2330.TW'', Stock_Name = ''TSMC'',
       Type = ''Sell'', Quantity = Number 1000, Price = Number 10.5, Fee = Number 20,
       Tax = Number 31.5\<rparr>)"
proof -
  let ?form = "\<lparr>form_date = None, form_code = Some '' 2330 '', form_name = Some ''TSMC'',
      form_market = None, form_type = Some ''Sell'', form_quantity = Some ''1000'',
      form_price = Some ''10.5''\<rparr>"
  let ?t = "\<lparr>Date = ''2024-01-02'', Stock_Code = ''2330.TW'', Stock_Name = ''TSMC'',
        Type = ''Sell'', Quantity = Number 1000, Price = Number 10.5, Fee = Number 20,
        Tax = Number 31.5\<rparr>"
  have run: "add_transaction sample_float ascii_strip ''2024-01-02''
      \<lparr>connected = True, append_ok = True, refresh_error = None\<rparr> ?form [] = (None, [?t])"
    by code_simp
  have grown: "[?t] \<noteq> []"
    by simp
  from entry_fee_and_tax [OF run grown] have "py_le (Number 20) (Fee ?t)"
    by auto
  with run grown show ?thesis
    by simp
qed

end
